theory Spec2Isabelle
  imports Complex_Main
begin

section \<open>Rows of the hosted tables\<close>

text \<open>
  Modelled from the spec: the row types of the tables \<open>slots\<close> and \<open>parking_areas\<close> are
  declared in \<open>lib/supabase.ts\<close>, which is not among the sources; the fields are the ones
  section 3 of the specification lists and the pages read. A status is kept as the string
  the backend delivers, so that a value outside \<open>free\<close>, \<open>occupied\<close>, \<open>reserved\<close> can be
  represented. Fields the pages test for \<open>null\<close> or falsiness are options (\<open>None\<close> is
  \<open>null\<close>). Record fields carry a prefix (\<open>s_\<close>, \<open>a_\<close>) because field names are global.
  A JavaScript number is given by its value, a rational: counts are naturals, the capacity
  an integer, coordinates and percentages rationals; its arithmetic is the subject of the
  next section.
\<close>

record Slot =
  s_id :: string
  s_parking_area_id :: string
  s_slot_number :: int
  s_status :: string

record ParkingArea =
  a_id :: string
  a_name :: "string option"
  a_lat :: "rat option"
  a_lng :: "rat option"
  a_total_slots :: "int option"

text \<open>\<open>interface ParkingAreaWithOccupancy extends ParkingArea\<close> (MapView.tsx, the map component).\<close>

record ParkingAreaWithOccupancy = ParkingArea +
  freeSlots :: "nat option"
  occupiedSlots :: nat
  reservedSlots :: nat
  occupancyPercentage :: rat

section \<open>JavaScript numbers\<close>

text \<open>
  The numbers of the pages are IEEE 754 binary64 values, and \<open>+\<close>, \<open>/\<close> and \<open>*\<close> give the
  exact result rounded to the nearest such value, ties to the even significand. A finite
  binary64 value is a rational, so an operation is the exact operation on rationals followed
  by \<open>round_number\<close>. The significand has 53 bits; the exponent range is left unbounded, so
  overflow and subnormal results are not represented (the pages divide and multiply counts
  of slots, a positive capacity and the constant 100). The one division of the aggregation is
  guarded by \<open>totalSlots > 0\<close>, so no \<open>NaN\<close> or infinity arises there.
\<close>

text \<open>Rounding to the nearest integer, a tie to the even one.\<close>

definition round_half_even :: "rat \<Rightarrow> int" where
  "round_half_even x =
     (let f = \<lfloor>x\<rfloor>; d = x - of_int f
      in if d < 1 / 2 then f else if 1 / 2 < d then f + 1 else if even f then f else f + 1)"

text \<open>
  The binary exponent of a positive number: the \<open>e\<close> with \<open>2 ^ e \<le> x < 2 ^ (e + 1)\<close>, found by
  halving or doubling until the number is in \<open>[1, 2)\<close>.
\<close>

function exponent :: "rat \<Rightarrow> int" where
  "exponent x =
     (if x \<le> 0 then 0
      else if 2 \<le> x then exponent (x / 2) + 1
      else if x < 1 then exponent (x * 2) - 1
      else 0)"
  by pat_completeness auto
termination
proof (relation "measure (\<lambda>x. if 2 \<le> x then nat \<lfloor>x\<rfloor> else nat \<lceil>1 / x\<rceil>)")
  show "wf (measure (\<lambda>x::rat. if 2 \<le> x then nat \<lfloor>x\<rfloor> else nat \<lceil>1 / x\<rceil>))"
    by simp
next
  fix x :: rat
  assume a: "\<not> x \<le> 0" "2 \<le> x"
  have fl2: "2 \<le> \<lfloor>x\<rfloor>" using a by (simp add: le_floor_iff)
  have less: "\<lfloor>x / 2\<rfloor> < \<lfloor>x\<rfloor>"
  proof -
    have "x / 2 < of_int \<lfloor>x\<rfloor>"
    proof -
      have "x < of_int \<lfloor>x\<rfloor> + 1" by linarith
      moreover have "(2::rat) \<le> of_int \<lfloor>x\<rfloor>" using fl2 by linarith
      ultimately show ?thesis by linarith
    qed
    then show ?thesis by (simp add: floor_less_iff)
  qed
  have small: "\<lceil>1 / (x / 2)\<rceil> \<le> 1" if "\<not> 2 \<le> x / 2"
  proof -
    have "1 / (x / 2) \<le> 1" using a by simp
    then show ?thesis by (simp add: ceiling_le_iff)
  qed
  show "(x / 2, x) \<in> measure (\<lambda>x. if 2 \<le> x then nat \<lfloor>x\<rfloor> else nat \<lceil>1 / x\<rceil>)"
  proof (cases "2 \<le> x / 2")
    case True
    with a less fl2 show ?thesis by simp
  next
    case False
    from small[OF False] fl2 have "nat \<lceil>1 / (x / 2)\<rceil> < nat \<lfloor>x\<rfloor>" by linarith
    with False a show ?thesis by simp
  qed
next
  fix x :: rat
  assume a: "\<not> x \<le> 0" "\<not> 2 \<le> x" "x < 1"
  have pos: "0 < x" using a by simp
  have big: "1 < 1 / x" using a pos by simp
  then have c2: "2 \<le> \<lceil>1 / x\<rceil>" by linarith
  have half: "1 / (x * 2) = (1 / x) / 2" by simp
  have "1 / (x * 2) \<le> of_int \<lceil>1 / x\<rceil> / 2"
    unfolding half using le_of_int_ceiling[of "1 / x"] by (simp add: divide_right_mono)
  also have "\<dots> \<le> of_int (\<lceil>1 / x\<rceil> - 1)"
    using c2 by simp
  finally have "\<lceil>1 / (x * 2)\<rceil> \<le> \<lceil>1 / x\<rceil> - 1"
    by (simp only: ceiling_le_iff)
  then have "nat \<lceil>1 / (x * 2)\<rceil> < nat \<lceil>1 / x\<rceil>"
    using c2 by linarith
  moreover have "\<not> 2 \<le> x * 2" using a by simp
  ultimately show "(x * 2, x) \<in> measure (\<lambda>x. if 2 \<le> x then nat \<lfloor>x\<rfloor> else nat \<lceil>1 / x\<rceil>)"
    using a by simp
qed

declare exponent.simps [simp del]

text \<open>The unit in the last place of the 53 bit significand, and the rounding itself.\<close>

definition ulp :: "rat \<Rightarrow> rat" where
  "ulp x = 2 powi (exponent x - 52)"

definition round_number :: "rat \<Rightarrow> rat" where
  "round_number x =
     (if x = 0 then 0
      else if 0 < x then of_int (round_half_even (x / ulp x)) * ulp x
      else - (of_int (round_half_even (- x / ulp (- x))) * ulp (- x)))"

text \<open>The three operations the aggregation uses.\<close>

definition number_add :: "rat \<Rightarrow> rat \<Rightarrow> rat" where
  "number_add a b = round_number (a + b)"

definition number_divide :: "rat \<Rightarrow> rat \<Rightarrow> rat" where
  "number_divide a b = round_number (a / b)"

definition number_times :: "rat \<Rightarrow> rat \<Rightarrow> rat" where
  "number_times a b = round_number (a * b)"

section \<open>Occupancy aggregation (MapView.tsx, fetchParkingAreasWithOccupancy)\<close>

text \<open>\<open>slots?.filter(s => s.status === st).length || 0\<close>: a missing slot list counts as 0.\<close>

definition count_status :: "string \<Rightarrow> Slot list option \<Rightarrow> nat" where
  "count_status st slots =
     (case slots of None \<Rightarrow> 0 | Some xs \<Rightarrow> length (filter (\<lambda>s. s_status s = st) xs))"

text \<open>\<open>area.total_slots || 0\<close>: \<open>null\<close> (and the falsy 0) give 0.\<close>

definition or_zero :: "int option \<Rightarrow> int" where
  "or_zero v = (case v of None \<Rightarrow> 0 | Some n \<Rightarrow> n)"

text \<open>
  The body of the \<open>areas.map\<close> callback: \<open>slotsError\<close> says whether the slot query of the
  area returned an error, \<open>slots\<close> is its \<open>data\<close>. The lengths and the capacity are integers,
  which the percentage expression \<open>((occupiedSlots + reservedSlots) / totalSlots) * 100\<close>
  adds, divides and multiplies as numbers.
\<close>

definition areaWithOccupancy ::
  "ParkingArea \<Rightarrow> bool \<Rightarrow> Slot list option \<Rightarrow> ParkingAreaWithOccupancy" where
  "areaWithOccupancy area slotsError slots =
     (if slotsError then
        ParkingArea.extend area
          (ParkingAreaWithOccupancy.fields (Some 0) 0 0 0)
      else
        let freeSlots = count_status ''free'' slots;
            occupiedSlots = count_status ''occupied'' slots;
            reservedSlots = count_status ''reserved'' slots;
            totalSlots = or_zero (a_total_slots area);
            occupancyPercentage =
              (if totalSlots > 0
               then number_times
                      (number_divide (number_add (of_nat occupiedSlots) (of_nat reservedSlots))
                         (of_int totalSlots))
                      100
               else 0)
        in ParkingArea.extend area
             (ParkingAreaWithOccupancy.fields (Some freeSlots) occupiedSlots reservedSlots
                occupancyPercentage))"

text \<open>
  The whole fetch: \<open>areas\<close> is the \<open>data\<close> of the area query (\<open>None\<close> gives the empty
  list), \<open>slotsOf\<close> the answer (error flag, data) of the slot query for an area id.
\<close>

definition areasWithOccupancy ::
  "ParkingArea list option \<Rightarrow> (string \<Rightarrow> bool \<times> Slot list option)
     \<Rightarrow> ParkingAreaWithOccupancy list" where
  "areasWithOccupancy areas slotsOf =
     (case areas of
        None \<Rightarrow> []
      | Some as \<Rightarrow>
          map (\<lambda>area. areaWithOccupancy area (fst (slotsOf (a_id area)))
                 (snd (slotsOf (a_id area)))) as)"

text \<open>The scenario of section 8 of the specification: capacity 10, six free, three occupied, one reserved.\<close>

definition scenario_area :: ParkingArea where
  "scenario_area =
     \<lparr>a_id = ''a1'', a_name = Some ''Tech Park'', a_lat = Some 13, a_lng = Some 78,
      a_total_slots = Some 10\<rparr>"

definition scenario_slot :: "string \<Rightarrow> int \<Rightarrow> string \<Rightarrow> Slot" where
  "scenario_slot i n st =
     \<lparr>s_id = i, s_parking_area_id = ''a1'', s_slot_number = n, s_status = st\<rparr>"

definition scenario_slots :: "Slot list" where
  "scenario_slots =
     [scenario_slot ''s1'' 1 ''free'', scenario_slot ''s2'' 2 ''occupied'',
      scenario_slot ''s3'' 3 ''free'', scenario_slot ''s4'' 4 ''free'',
      scenario_slot ''s5'' 5 ''reserved'', scenario_slot ''s6'' 6 ''occupied'',
      scenario_slot ''s7'' 7 ''free'', scenario_slot ''s8'' 8 ''free'',
      scenario_slot ''s9'' 9 ''occupied'', scenario_slot ''s10'' 10 ''free'']"

text \<open>A second area: capacity 20, eleven slots occupied, nine free.\<close>

definition busy_area :: ParkingArea where
  "busy_area =
     \<lparr>a_id = ''a2'', a_name = Some ''Mall'', a_lat = Some 12, a_lng = Some 77,
      a_total_slots = Some 20\<rparr>"

definition busy_slot :: "string \<Rightarrow> int \<Rightarrow> string \<Rightarrow> Slot" where
  "busy_slot i n st =
     \<lparr>s_id = i, s_parking_area_id = ''a2'', s_slot_number = n, s_status = st\<rparr>"

definition busy_slots :: "Slot list" where
  "busy_slots =
     [busy_slot ''b1'' 1 ''occupied'', busy_slot ''b2'' 2 ''occupied'',
      busy_slot ''b3'' 3 ''occupied'', busy_slot ''b4'' 4 ''occupied'',
      busy_slot ''b5'' 5 ''occupied'', busy_slot ''b6'' 6 ''occupied'',
      busy_slot ''b7'' 7 ''occupied'', busy_slot ''b8'' 8 ''occupied'',
      busy_slot ''b9'' 9 ''occupied'', busy_slot ''b10'' 10 ''occupied'',
      busy_slot ''b11'' 11 ''occupied'', busy_slot ''b12'' 12 ''free'',
      busy_slot ''b13'' 13 ''free'', busy_slot ''b14'' 14 ''free'',
      busy_slot ''b15'' 15 ''free'', busy_slot ''b16'' 16 ''free'',
      busy_slot ''b17'' 17 ''free'', busy_slot ''b18'' 18 ''free'',
      busy_slot ''b19'' 19 ''free'', busy_slot ''b20'' 20 ''free'']"

section \<open>Requests to the backend and what a handler shows\<close>

text \<open>
  A handler is a function from the state of its page to the new state and the list of its
  effects, in the order the handler performs them. A request names the table, the filter
  and the values it sends. The backend is not part of the sources: its answer to a write is
  a parameter \<open>fails\<close>, true when the write returns an error.
\<close>

datatype db_request =
    Select_slots string
    \<comment> \<open>\<open>from('slots').select('*').eq('parking_area_id', areaId).order('slot_number')\<close>\<close>
  | Insert_reservation string string string string string
    \<comment> \<open>\<open>user_id\<close>, \<open>slot_id\<close>, \<open>start_time\<close>, \<open>end_time\<close>, \<open>status\<close>\<close>
  | Update_slot_status string string
    \<comment> \<open>\<open>from('slots').update({status}).eq('id', slotId)\<close>: slot id, then status\<close>
  | Update_reservation_status string string
    \<comment> \<open>\<open>from('reservations').update({status}).eq('id', reservationId)\<close>: id, then status\<close>

datatype effect =
    Request db_request
  | Toast_error string
  | Toast_success string
  | Console_error string

text \<open>Three backends for concrete runs: every write succeeds, every write fails, only slot updates fail.\<close>

definition backend_ok :: "db_request \<Rightarrow> bool" where
  "backend_ok r = False"

definition backend_down :: "db_request \<Rightarrow> bool" where
  "backend_down r = True"

fun slot_updates_fail :: "db_request \<Rightarrow> bool" where
  "slot_updates_fail (Update_slot_status _ _) = True"
| "slot_updates_fail _ = False"

fun is_write :: "effect \<Rightarrow> bool" where
  "is_write (Request (Select_slots _)) = False"
| "is_write (Request _) = True"
| "is_write _ = False"

definition writes :: "effect list \<Rightarrow> effect list" where
  "writes es = filter is_write es"

section \<open>The slot grid (SlotGrid.tsx)\<close>

text \<open>\<open>disabled={slot.status !== 'free'}\<close>\<close>

definition disabled :: "Slot \<Rightarrow> bool" where
  "disabled slot = (s_status slot \<noteq> ''free'')"

text \<open>
  \<open>onClick={() => slot.status === 'free' && onReserveSlot(slot.id)}\<close>: the calls of
  \<open>onReserveSlot\<close> the click handler makes, each by its argument.
\<close>

definition onClick :: "Slot \<Rightarrow> string list" where
  "onClick slot = (if s_status slot = ''free'' then [s_id slot] else [])"

text \<open>Pressing the button of a slot: a disabled button does not run its click handler.\<close>

definition press :: "Slot \<Rightarrow> string list" where
  "press slot = (if disabled slot then [] else onClick slot)"

section \<open>The dashboard (reservation workflow)\<close>

record User =
  u_id :: string

text \<open>The state of the dashboard that the reservation workflow reads and writes.\<close>

record Dashboard =
  slots :: "Slot list"
  userReservations :: "string list"
  reserveSlotId :: string
  selectedSlotNumber :: int

text \<open>
  \<open>fetchSlots\<close>: the only place that calls \<open>setSlots\<close>. It runs when the selected area
  changes and on every change notification of the \<open>slots\<close> table. \<open>error\<close> and \<open>data\<close> are
  the answer of the query.
\<close>

definition fetchSlots :: "string \<Rightarrow> bool \<Rightarrow> Slot list option \<Rightarrow> Dashboard \<Rightarrow> Dashboard \<times> effect list" where
  "fetchSlots selectedAreaId error data d =
     (if error then (d, [Request (Select_slots selectedAreaId), Toast_error ''Failed to load slots''])
      else case data of
             Some rows \<Rightarrow> (d\<lparr>slots := rows\<rparr>, [Request (Select_slots selectedAreaId)])
           | None \<Rightarrow> (d, [Request (Select_slots selectedAreaId)]))"

definition handleReserveSlot :: "Dashboard \<Rightarrow> string \<Rightarrow> Dashboard" where
  "handleReserveSlot d slotId =
     (case find (\<lambda>s. s_id s = slotId) (slots d) of
        Some slot \<Rightarrow> d\<lparr>reserveSlotId := slotId, selectedSlotNumber := s_slot_number slot\<rparr>
      | None \<Rightarrow> d)"

text \<open>\<open><SlotGrid slots={slots} onReserveSlot={handleReserveSlot} ... />\<close>: pressing a slot of the grid.\<close>

definition pressSlot :: "Dashboard \<Rightarrow> Slot \<Rightarrow> Dashboard" where
  "pressSlot d slot = foldl handleReserveSlot d (press slot)"

text \<open>
  \<open>handleConfirmReservation\<close>. The result of the slot update is awaited and not looked at.
  \<open>reserveSlotId\<close> in the two setters is the value the handler closed over.
\<close>

definition handleConfirmReservation ::
  "(db_request \<Rightarrow> bool) \<Rightarrow> User option \<Rightarrow> Dashboard \<Rightarrow> string \<Rightarrow> string
     \<Rightarrow> Dashboard \<times> effect list" where
  "handleConfirmReservation fails user d startTime endTime =
     (case user of
        None \<Rightarrow> (d, [])
      | Some u \<Rightarrow>
          if reserveSlotId d = [] then (d, [])
          else
            let insert = Insert_reservation (u_id u) (reserveSlotId d) startTime endTime ''active''
            in if fails insert then
                 (d, [Request insert, Toast_error ''Failed to create reservation''])
               else
                 (d\<lparr>reserveSlotId := [],
                    userReservations := userReservations d @ [reserveSlotId d]\<rparr>,
                  [Request insert,
                   Request (Update_slot_status (reserveSlotId d) ''reserved''),
                   Toast_success ''Slot reserved successfully!'']))"

text \<open>
  The dashboard of a signed-in user over the scenario's slots, with the dialog closed, and the
  same after slot \<open>s1\<close> (free) has been picked.
\<close>

definition scenario_user :: User where
  "scenario_user = \<lparr>u_id = ''u1''\<rparr>"

definition scenario_dashboard :: Dashboard where
  "scenario_dashboard =
     \<lparr>slots = scenario_slots, userReservations = [], reserveSlotId = [],
      selectedSlotNumber = 0\<rparr>"

definition scenario_dialog :: Dashboard where
  "scenario_dialog = pressSlot scenario_dashboard (scenario_slot ''s1'' 1 ''free'')"

text \<open>
  The same dashboard after a change notification: slot \<open>s1\<close>, picked while free, comes back
  occupied from the re-fetch, and the dialog is still open.
\<close>

definition scenario_refetched :: Dashboard where
  "scenario_refetched =
     fst (fetchSlots ''a1'' False (Some (scenario_slot ''s1'' 1 ''occupied'' # tl scenario_slots))
            scenario_dialog)"

section \<open>The profile page (cancellation)\<close>

text \<open>
  Modelled from the spec: the row type of \<open>reservations\<close> (declared in \<open>lib/supabase.ts\<close>),
  with the fields of section 3 of the specification.
\<close>

record Reservation =
  r_id :: string
  r_user_id :: string
  r_slot_id :: string
  r_start_time :: string
  r_end_time :: string
  r_status :: string
  r_created_at :: string

record Profile =
  reservations :: "Reservation list"
  isLoading :: bool

definition handleCancelReservation ::
  "(db_request \<Rightarrow> bool) \<Rightarrow> Profile \<Rightarrow> string \<Rightarrow> string \<Rightarrow> Profile \<times> effect list" where
  "handleCancelReservation fails p reservationId slotId =
     (let cancel = Update_reservation_status reservationId ''cancelled''
      in if fails cancel then
           (p, [Request cancel,
                Console_error ''Error cancelling reservation:'',
                Toast_error ''Failed to cancel reservation''])
         else
           let release = Update_slot_status slotId ''free''
           in (p\<lparr>reservations :=
                    map (\<lambda>res. if r_id res = reservationId
                               then res\<lparr>r_status := ''cancelled''\<rparr> else res)
                      (reservations p)\<rparr>,
               [Request cancel, Request release]
               @ (if fails release then [Console_error ''Error updating slot status:''] else [])
               @ [Toast_success ''Reservation cancelled successfully'']))"

definition activeReservations :: "Profile \<Rightarrow> Reservation list" where
  "activeReservations p = filter (\<lambda>r. r_status r = ''active'') (reservations p)"

definition pastReservations :: "Profile \<Rightarrow> Reservation list" where
  "pastReservations p = filter (\<lambda>r. r_status r \<noteq> ''active'') (reservations p)"

text \<open>A profile with two active reservations and a completed one.\<close>

definition scenario_reservation :: "string \<Rightarrow> string \<Rightarrow> string \<Rightarrow> Reservation" where
  "scenario_reservation i slotId st =
     \<lparr>r_id = i, r_user_id = ''u1'', r_slot_id = slotId, r_start_time = ''09:00'',
      r_end_time = ''10:00'', r_status = st, r_created_at = ''08:00''\<rparr>"

definition scenario_profile :: Profile where
  "scenario_profile =
     \<lparr>reservations = [scenario_reservation ''r1'' ''s1'' ''active'',
                      scenario_reservation ''r2'' ''s5'' ''active'',
                      scenario_reservation ''r3'' ''s2'' ''completed''],
      isLoading = False\<rparr>"

section \<open>The system status indicator (SystemStatusIndicator.tsx)\<close>

text \<open>
  Modelled from the spec: the row type of \<open>system_status\<close> (declared in \<open>lib/supabase.ts\<close>):
  the system id the queries filter on, the last heartbeat as the timestamp string the
  backend delivers, the status string and the optional location label.
\<close>

record SystemStatus =
  ss_system_id :: string
  ss_last_heartbeat :: string
  ss_status :: string
  ss_location :: "string option"

datatype level = Healthy | Warning | Critical

text \<open>The component: its \<open>systemId\<close> prop and its three \<open>useState\<close> cells.\<close>

record Indicator =
  systemId :: "string option"
  systemStatus :: "SystemStatus option"
  statusLevel :: level
  lastSeenText :: string

text \<open>Numbers in template strings. \<open>None\<close> is \<open>NaN\<close> (the time of an unparsable date).\<close>

fun show_nat :: "nat \<Rightarrow> string" where
  "show_nat n =
     (if n < 10 then [''0123456789'' ! n]
      else show_nat (n div 10) @ [''0123456789'' ! (n mod 10)])"

declare show_nat.simps [simp del]

definition show_int :: "int \<Rightarrow> string" where
  "show_int i = (if i < 0 then CHR ''-'' # show_nat (nat (- i)) else show_nat (nat i))"

definition show_number :: "int option \<Rightarrow> string" where
  "show_number v = (case v of None \<Rightarrow> ''NaN'' | Some i \<Rightarrow> show_int i)"

text \<open>
  \<open>Math.floor((now.getTime() - heartbeatTime.getTime()) / (1000 * 60))\<close>. The clock and the
  date parser belong to the runtime: \<open>now\<close> is the time of the call in milliseconds,
  \<open>getTime\<close> gives the time of a timestamp string, \<open>None\<close> when it is not a date.
  Integer division rounds down, as \<open>Math.floor\<close> does.
\<close>

definition diffMinutes :: "(string \<Rightarrow> int option) \<Rightarrow> int \<Rightarrow> string \<Rightarrow> int option" where
  "diffMinutes getTime now lastHeartbeat =
     (case getTime lastHeartbeat of
        None \<Rightarrow> None
      | Some heartbeatTime \<Rightarrow> Some ((now - heartbeatTime) div (1000 * 60)))"

definition calculateStatusLevel ::
  "(string \<Rightarrow> int option) \<Rightarrow> int \<Rightarrow> string \<Rightarrow> string \<Rightarrow> Indicator \<Rightarrow> Indicator" where
  "calculateStatusLevel getTime now lastHeartbeat currentStatus ind =
     (let diff = diffMinutes getTime now lastHeartbeat
      in if currentStatus = ''online'' then
           ind\<lparr>statusLevel := Healthy,
               lastSeenText :=
                 (if diff = Some 0 then ''Just now'' else show_number diff @ '' min ago'')\<rparr>
         else if currentStatus = ''offline'' then
           ind\<lparr>statusLevel := Critical,
               lastSeenText :=
                 (case diff of
                    None \<Rightarrow> show_number None @ ''h ago''
                  | Some m \<Rightarrow>
                      if m < 60 then show_number (Some m) @ '' min ago''
                      else show_number (Some (m div 60)) @ ''h ago'')\<rparr>
         else
           ind\<lparr>statusLevel := Critical, lastSeenText := ''Unknown''\<rparr>)"

text \<open>\<open>systemId || 'parking_monitor_tech_park_whitefield'\<close>\<close>

definition targetSystemId :: "string option \<Rightarrow> string" where
  "targetSystemId sid =
     (case sid of
        None \<Rightarrow> ''parking_monitor_tech_park_whitefield''
      | Some s \<Rightarrow> if s = [] then ''parking_monitor_tech_park_whitefield'' else s)"

text \<open>
  The answer of a query: the promise rejects (\<open>Thrown\<close>), or it resolves with an error
  flag and the data.
\<close>

datatype 'a reply = Thrown | Reply bool "'a option"

text \<open>
  Modelled from the spec: \<open>.single()\<close> of the backend client, over the rows that match the
  filter. The specification has a system id with no record end in the error branch
  (\<open>critical\<close>, \<open>Never\<close>); exactly one row is delivered as the data.
\<close>

fun single :: "'a list \<Rightarrow> 'a reply" where
  "single [row] = Reply False (Some row)"
| "single _ = Reply True None"

definition fetchSystemStatus ::
  "(string \<Rightarrow> int option) \<Rightarrow> int \<Rightarrow> SystemStatus reply \<Rightarrow> Indicator \<Rightarrow> Indicator" where
  "fetchSystemStatus getTime now answer ind =
     (case answer of
        Thrown \<Rightarrow> ind\<lparr>systemStatus := None, statusLevel := Critical, lastSeenText := ''Error''\<rparr>
      | Reply error data \<Rightarrow>
          if error then
            ind\<lparr>systemStatus := None, statusLevel := Critical, lastSeenText := ''Never''\<rparr>
          else
            (case data of
               None \<Rightarrow> ind
             | Some row \<Rightarrow>
                 calculateStatusLevel getTime now (ss_last_heartbeat row) (ss_status row)
                   (ind\<lparr>systemStatus := Some row\<rparr>)))"

text \<open>The state after \<open>useState\<close>, before any effect has run.\<close>

definition initial :: "string option \<Rightarrow> Indicator" where
  "initial sid =
     \<lparr>systemId = sid, systemStatus = None, statusLevel = Critical, lastSeenText = []\<rparr>"

text \<open>
  What can happen to the component: the effect on \<open>systemId\<close> runs (on mount and whenever
  the prop changes) and resets the state; a fetch it started resolves; the subscription
  delivers a payload; the 30 second timer fires. The times are the clock's at the event.
\<close>

datatype event =
    SystemId_effect "string option"
  | Fetch_resolved int "SystemStatus reply"
  | Payload int "SystemStatus option"
  | Timer int

fun step :: "(string \<Rightarrow> int option) \<Rightarrow> Indicator \<Rightarrow> event \<Rightarrow> Indicator" where
  "step getTime ind (SystemId_effect sid) =
     ind\<lparr>systemId := sid, systemStatus := None, statusLevel := Critical,
         lastSeenText := ''Loading...''\<rparr>"
| "step getTime ind (Fetch_resolved now answer) = fetchSystemStatus getTime now answer ind"
| "step getTime ind (Payload now new) =
     (case new of
        None \<Rightarrow> ind
      | Some newStatus \<Rightarrow>
          if ss_system_id newStatus = targetSystemId (systemId ind) then
            calculateStatusLevel getTime now (ss_last_heartbeat newStatus) (ss_status newStatus)
              (ind\<lparr>systemStatus := Some newStatus\<rparr>)
          else ind)"
| "step getTime ind (Timer now) =
     (case systemStatus ind of
        None \<Rightarrow> ind
      | Some st \<Rightarrow>
          if ss_last_heartbeat st \<noteq> [] \<and> ss_status st \<noteq> [] then
            calculateStatusLevel getTime now (ss_last_heartbeat st) (ss_status st) ind
          else ind)"

definition run :: "(string \<Rightarrow> int option) \<Rightarrow> Indicator \<Rightarrow> event list \<Rightarrow> Indicator" where
  "run getTime ind events = foldl (step getTime) ind events"

text \<open>
  A record of the default system whose heartbeat was at time 0, and a date parser that knows
  that one timestamp.
\<close>

definition scenario_status :: "string \<Rightarrow> SystemStatus" where
  "scenario_status st =
     \<lparr>ss_system_id = ''parking_monitor_tech_park_whitefield'', ss_last_heartbeat = ''08:00'',
      ss_status = st, ss_location = Some ''Tech Park''\<rparr>"

fun scenario_getTime :: "string \<Rightarrow> int option" where
  "scenario_getTime t = (if t = ''08:00'' then Some 0 else None)"

section \<open>The map markers (the map component, MapTilerMap)\<close>

subsection \<open>The marker of an area\<close>

text \<open>
  What the loop hands to the map widget for one area: the position of the marker, the
  colour and the two values its icon interpolates (the free-slot count in the disc, the
  name in the tag above it).
\<close>

record Marker =
  m_area_id :: string
  m_lat :: rat
  m_lng :: rat
  m_color :: string
  m_label :: nat
  m_name :: string

text \<open>Truthiness of a number and of a string field: \<open>null\<close>, 0 and the empty string are falsy.\<close>

definition truthy_number :: "rat option \<Rightarrow> bool" where
  "truthy_number v = (case v of None \<Rightarrow> False | Some x \<Rightarrow> x \<noteq> 0)"

definition truthy_string :: "string option \<Rightarrow> bool" where
  "truthy_string v = (case v of None \<Rightarrow> False | Some x \<Rightarrow> x \<noteq> [])"

definition occupancyColor :: "rat \<Rightarrow> string" where
  "occupancyColor p = (if p > 80 then ''#EF4444'' else if p > 50 then ''#F59E0B'' else ''#10B981'')"

text \<open>
  The body of \<open>parkingAreas.forEach\<close>: the markers it adds to the layer for one entry of
  the list (\<open>None\<close> is a \<open>null\<close> entry). The guard is the source's; behind it the four
  fields are present, which the inner \<open>case\<close> reads off.
\<close>

definition areaMarkers :: "ParkingAreaWithOccupancy option \<Rightarrow> Marker list" where
  "areaMarkers entry =
     (case entry of
        None \<Rightarrow> []
      | Some area \<Rightarrow>
          if \<not> truthy_number (a_lat area) \<or> \<not> truthy_number (a_lng area)
             \<or> \<not> truthy_string (a_name area) \<or> freeSlots area = None
          then []
          else
            (case (a_lat area, a_lng area, a_name area, freeSlots area) of
               (Some lat, Some lng, Some name, Some free) \<Rightarrow>
                 [\<lparr>m_area_id = a_id area, m_lat = lat, m_lng = lng,
                   m_color = occupancyColor (occupancyPercentage area),
                   m_label = free, m_name = name\<rparr>]
             | _ \<Rightarrow> []))"

definition markers :: "ParkingAreaWithOccupancy option list \<Rightarrow> Marker list" where
  "markers parkingAreas = concat (map areaMarkers parkingAreas)"

text \<open>
  The effect that draws the layer runs its loop only when the map exists and the list is
  not empty; otherwise no new layer is made (\<open>None\<close>).
\<close>

definition markersLayer :: "bool \<Rightarrow> ParkingAreaWithOccupancy option list \<Rightarrow> Marker list option" where
  "markersLayer mapReady parkingAreas =
     (if mapReady \<and> parkingAreas \<noteq> [] then Some (markers parkingAreas) else None)"

subsection \<open>Single and double activation of a marker\<close>

text \<open>
  The closure state of one marker: \<open>clickCount\<close>, \<open>clickTimeout\<close> (the id \<open>setTimeout\<close>
  returned, \<open>None\<close> for \<open>null\<close>), and of the runtime the timers of this marker that are
  scheduled and have neither fired nor been cleared, oldest first, with the next fresh timer
  id. \<open>listening\<close> says that \<open>handleMarkerClick\<close> is registered on the marker, \<open>popupOpen\<close>
  that the popup bound to the marker is on the map.
\<close>

record MarkerClicks =
  clickCount :: nat
  clickTimeout :: "nat option"
  timers :: "nat list"
  nextTimer :: nat
  listening :: bool
  popupOpen :: bool

datatype activation =
    Click
    \<comment> \<open>the marker is activated\<close>
  | Timeout bool
    \<comment> \<open>300 ms have passed for the oldest scheduled timer; the flag is \<open>map.hasLayer(marker)\<close> then\<close>
  | Dismiss
    \<comment> \<open>the popup is closed from outside the marker: its close button, a click on the map\<close>
  | Cleanup
    \<comment> \<open>\<open>marker._clickCleanup()\<close>\<close>

datatype ui_event =
    Open_popup
  | Close_popup
  | Area_select string

text \<open>
  The map widget (Leaflet 1.9.4, which the component loads at run time) is not among the
  sources. The model takes from it the three things the marker code calls on.
  \<open>marker.openPopup()\<close> puts the bound popup on the map unless it is there already, and
  closing takes it off. \<open>marker.bindPopup(popupContent)\<close> binds the popup and registers the
  widget's own click listener on the marker, which closes the popup when it is open and opens
  it otherwise. Listeners of one event run in the order they were registered:
  \<open>handleMarkerClick\<close> (\<open>marker.on('click', ...)\<close>) first, the widget's listener (\<open>bindPopup\<close>, a
  few lines later) second; \<open>marker.off('click', handleMarkerClick)\<close> removes only the first.
\<close>

definition openPopup :: "MarkerClicks \<Rightarrow> MarkerClicks \<times> ui_event list" where
  "openPopup m = (if popupOpen m then (m, []) else (m\<lparr>popupOpen := True\<rparr>, [Open_popup]))"

definition closePopup :: "MarkerClicks \<Rightarrow> MarkerClicks \<times> ui_event list" where
  "closePopup m = (if popupOpen m then (m\<lparr>popupOpen := False\<rparr>, [Close_popup]) else (m, []))"

definition togglePopup :: "MarkerClicks \<Rightarrow> MarkerClicks \<times> ui_event list" where
  "togglePopup m = (if popupOpen m then closePopup m else openPopup m)"

definition clearTimeout :: "nat option \<Rightarrow> nat list \<Rightarrow> nat list" where
  "clearTimeout t ts = (case t of None \<Rightarrow> ts | Some i \<Rightarrow> removeAll i ts)"

definition handleMarkerClick :: "string \<Rightarrow> MarkerClicks \<Rightarrow> MarkerClicks \<times> ui_event list" where
  "handleMarkerClick areaId m =
     (let count = clickCount m + 1
      in if count = 1 then
           (m\<lparr>clickCount := count, clickTimeout := Some (nextTimer m),
               timers := timers m @ [nextTimer m], nextTimer := nextTimer m + 1\<rparr>, [])
         else if count = 2 then
           (m\<lparr>clickCount := 0, clickTimeout := None,
               timers := clearTimeout (clickTimeout m) (timers m)\<rparr>,
            [Area_select areaId])
         else (m\<lparr>clickCount := count\<rparr>, []))"

text \<open>The callback of the timer: the popup is opened if the marker is on the map, the count is reset.\<close>

definition timerCallback :: "bool \<Rightarrow> MarkerClicks \<Rightarrow> MarkerClicks \<times> ui_event list" where
  "timerCallback hasLayer m =
     (let (m1, out) = (if hasLayer then openPopup m else (m, []))
      in (m1\<lparr>clickCount := 0\<rparr>, out))"

text \<open>A click on the marker runs its click listeners in order.\<close>

definition markerClicked :: "string \<Rightarrow> MarkerClicks \<Rightarrow> MarkerClicks \<times> ui_event list" where
  "markerClicked areaId m =
     (let (m1, out1) = (if listening m then handleMarkerClick areaId m else (m, []));
          (m2, out2) = togglePopup m1
      in (m2, out1 @ out2))"

fun activate :: "string \<Rightarrow> MarkerClicks \<Rightarrow> activation \<Rightarrow> MarkerClicks \<times> ui_event list" where
  "activate areaId m Click = markerClicked areaId m"
| "activate areaId m (Timeout hasLayer) =
     (case timers m of
        [] \<Rightarrow> (m, [])
      | t # ts \<Rightarrow> timerCallback hasLayer (m\<lparr>timers := ts\<rparr>))"
| "activate areaId m Dismiss = closePopup m"
| "activate areaId m Cleanup =
     (m\<lparr>clickTimeout := None, timers := clearTimeout (clickTimeout m) (timers m),
        listening := False\<rparr>, [])"

fun activations :: "string \<Rightarrow> MarkerClicks \<Rightarrow> activation list \<Rightarrow> MarkerClicks \<times> ui_event list" where
  "activations areaId m [] = (m, [])"
| "activations areaId m (a # as) =
     (let (m1, out1) = activate areaId m a;
          (m2, out2) = activations areaId m1 as
      in (m2, out1 @ out2))"

text \<open>
  A marker as the loop leaves it: no click counted, no timer, the handler registered, the
  popup bound and closed.
\<close>

definition newMarker :: MarkerClicks where
  "newMarker =
     \<lparr>clickCount = 0, clickTimeout = None, timers = [], nextTimer = 1, listening = True,
      popupOpen = False\<rparr>"

text \<open>
  Between two activations a marker is in one of two shapes: no timer is scheduled (and, while
  the handler is registered, no click is counted), or exactly the timer \<open>clickTimeout\<close> names is
  scheduled, one click is counted and the handler is registered.
\<close>

definition settled :: "MarkerClicks \<Rightarrow> bool" where
  "settled m =
     (case timers m of
        [] \<Rightarrow> \<not> listening m \<or> clickCount m = 0
      | [t] \<Rightarrow> clickTimeout m = Some t \<and> clickCount m = 1 \<and> listening m
      | _ \<Rightarrow> False)"

text \<open>The area selections among the events of a marker.\<close>

fun is_area_select :: "ui_event \<Rightarrow> bool" where
  "is_area_select (Area_select _) = True"
| "is_area_select _ = False"

text \<open>The scenario's area as the map component receives it from the aggregation.\<close>

definition scenario_map_area :: ParkingAreaWithOccupancy where
  "scenario_map_area = areaWithOccupancy scenario_area False (Some scenario_slots)"

section \<open>Properties of the numbers\<close>

text \<open>
  Rounding is monotone, keeps a number within its binade, and moves it by at most half a unit
  in the last place, a relative error of at most \<open>2 ^ -53\<close>.
\<close>

lemma floor_rat_numeral: "\<lfloor>numeral a / numeral b :: rat\<rfloor> = numeral a div numeral b"
  using floor_divide_of_int_eq[of "numeral a" "numeral b", where ?'a = rat] by simp

lemmas number_eval =
  number_add_def number_divide_def number_times_def round_number_def ulp_def exponent.simps round_half_even_def Let_def floor_rat_numeral

subsection \<open>Rounding to an integer\<close>

lemma round_half_even_of_int: "round_half_even (of_int k) = k"
  by (simp add: round_half_even_def)

lemma round_half_even_ge_floor: "\<lfloor>x\<rfloor> \<le> round_half_even x"
  by (simp add: round_half_even_def Let_def)

lemma round_half_even_le_floor: "round_half_even x \<le> \<lfloor>x\<rfloor> + 1"
  by (simp add: round_half_even_def Let_def)

lemma round_half_even_mono:
  assumes "x \<le> y"
  shows "round_half_even x \<le> round_half_even y"
proof (cases "\<lfloor>x\<rfloor> = \<lfloor>y\<rfloor>")
  case True
  with assms have "x - of_int \<lfloor>x\<rfloor> \<le> y - of_int \<lfloor>y\<rfloor>" by simp
  with True show ?thesis
    by (auto simp: round_half_even_def Let_def)
next
  case False
  with assms have "\<lfloor>x\<rfloor> < \<lfloor>y\<rfloor>"
    using floor_mono[of x y] by linarith
  then have "round_half_even x \<le> \<lfloor>y\<rfloor>"
    using round_half_even_le_floor[of x] by linarith
  then show ?thesis
    using round_half_even_ge_floor[of y] by linarith
qed

lemma round_half_even_near:
  "of_int (round_half_even x) - x \<le> 1 / 2" "x - of_int (round_half_even x) \<le> 1 / 2"
proof -
  define f where "f = \<lfloor>x\<rfloor>"
  define d where "d = x - of_int f"
  have d: "0 \<le> d" "d < 1"
    unfolding d_def f_def by linarith+
  have r: "round_half_even x
             = (if d < 1 / 2 then f else if 1 / 2 < d then f + 1 else if even f then f else f + 1)"
    by (simp add: round_half_even_def Let_def d_def f_def)
  have diff: "of_int (round_half_even x) - x = of_int (round_half_even x - f) - d"
    by (simp add: d_def)
  have which: "(round_half_even x - f = 0 \<and> d \<le> 1 / 2) \<or> (round_half_even x - f = 1 \<and> 1 / 2 \<le> d)"
    unfolding r by auto
  then show "of_int (round_half_even x) - x \<le> 1 / 2"
    unfolding diff using d by auto
  from which show "x - of_int (round_half_even x) \<le> 1 / 2"
    using diff d by auto
qed

subsection \<open>The exponent\<close>

lemma two_powi_Suc: "(2::rat) powi (e + 1) = 2 * 2 powi e"
  by (simp add: power_int_add)

lemma two_powi_pred: "(2::rat) powi (e - 1) = 2 powi e / 2"
  by (simp add: power_int_diff)

lemma two_powi_Suc_Suc: "(2::rat) powi (e + 1 + 1) = 4 * 2 powi e"
  by (simp add: power_int_add)

lemma exponent_bounds:
  "0 < x \<Longrightarrow> 2 powi exponent x \<le> x \<and> x < 2 powi (exponent x + 1)"
proof (induction x rule: exponent.induct)
  case (1 x)
  show ?case
  proof (cases "2 \<le> x")
    case True
    then have e: "exponent x = exponent (x / 2) + 1"
      using "1.prems" by (subst exponent.simps) simp
    have "2 powi exponent (x / 2) \<le> x / 2 \<and> x / 2 < 2 powi (exponent (x / 2) + 1)"
      using "1.IH"(1) True "1.prems" by simp
    then have "2 * 2 powi exponent (x / 2) \<le> x \<and> x < 4 * 2 powi exponent (x / 2)"
      by (simp add: two_powi_Suc)
    then show ?thesis
      unfolding e two_powi_Suc_Suc by (simp add: two_powi_Suc)
  next
    case False
    show ?thesis
    proof (cases "x < 1")
      case True
      then have e: "exponent x = exponent (x * 2) - 1"
        using "1.prems" False by (subst exponent.simps) simp
      have "2 powi exponent (x * 2) \<le> x * 2 \<and> x * 2 < 2 powi (exponent (x * 2) + 1)"
        using "1.IH"(2) True False "1.prems" by simp
      then have "2 powi exponent (x * 2) / 2 \<le> x \<and> x < 2 powi exponent (x * 2)"
        by (simp add: two_powi_Suc)
      then show ?thesis
        unfolding e by (simp add: two_powi_pred)
    next
      case ge1: False
      then have e: "exponent x = 0"
        using "1.prems" False by (subst exponent.simps) simp
      show ?thesis
        unfolding e using False ge1 by simp
    qed
  qed
qed

lemma exponent_mono:
  assumes "0 < x" "x \<le> y"
  shows "exponent x \<le> exponent y"
proof (rule ccontr)
  assume "\<not> exponent x \<le> exponent y"
  then have "exponent y + 1 \<le> exponent x" by simp
  then have "(2::rat) powi (exponent y + 1) \<le> 2 powi exponent x"
    by (intro power_int_increasing) simp_all
  also have "\<dots> \<le> x" using exponent_bounds[OF assms(1)] by simp
  also have "\<dots> \<le> y" by (rule assms(2))
  also have "\<dots> < 2 powi (exponent y + 1)"
    using exponent_bounds[of y] assms by simp
  finally show False by simp
qed

subsection \<open>Rounding to a number\<close>

lemma ulp_pos: "0 < ulp x"
  by (simp add: ulp_def)

lemma ulp_scaled:
  "2 powi exponent x = 2 ^ 52 * ulp x" "2 powi (exponent x + 1) = 2 ^ 53 * ulp x"
proof -
  have "(2::rat) powi exponent x = 2 powi (52 + (exponent x - 52))" by simp
  also have "\<dots> = 2 powi 52 * 2 powi (exponent x - 52)"
    by (subst power_int_add) simp_all
  finally show "2 powi exponent x = 2 ^ 52 * ulp x"
    by (simp add: ulp_def)
  have "exponent x + 1 = 53 + (exponent x - 52)" by simp
  then have "(2::rat) powi (exponent x + 1) = 2 powi (53 + (exponent x - 52))"
    by (rule arg_cong)
  also have "\<dots> = 2 powi 53 * 2 powi (exponent x - 52)"
    by (subst power_int_add) simp_all
  finally show "2 powi (exponent x + 1) = 2 ^ 53 * ulp x"
    by (simp add: ulp_def)
qed

lemma mantissa_range:
  assumes "0 < x"
  shows "2 ^ 52 \<le> x / ulp x" "x / ulp x < 2 ^ 53"
  using exponent_bounds[OF assms] ulp_pos[of x]
  by (simp_all add: ulp_scaled pos_le_divide_eq pos_divide_less_eq)

lemma mantissa_rounded:
  assumes "0 < x"
  shows "2 ^ 52 \<le> round_half_even (x / ulp x)" "round_half_even (x / ulp x) \<le> 2 ^ 53"
proof -
  have "round_half_even (of_int (2 ^ 52)) \<le> round_half_even (x / ulp x)"
    by (rule round_half_even_mono) (use mantissa_range[OF assms] in simp)
  then show "2 ^ 52 \<le> round_half_even (x / ulp x)"
    by (simp only: round_half_even_of_int)
  have "round_half_even (x / ulp x) \<le> round_half_even (of_int (2 ^ 53))"
    by (rule round_half_even_mono) (use mantissa_range[OF assms] in simp)
  then show "round_half_even (x / ulp x) \<le> 2 ^ 53"
    by (simp only: round_half_even_of_int)
qed

lemma round_number_pos: "0 < x \<Longrightarrow> round_number x = of_int (round_half_even (x / ulp x)) * ulp x"
  by (simp add: round_number_def)

lemma round_number_binade:
  assumes "0 < x"
  shows "2 powi exponent x \<le> round_number x" "round_number x \<le> 2 powi (exponent x + 1)"
proof -
  have lo: "(2 ^ 52 :: rat) \<le> of_int (round_half_even (x / ulp x))"
    using mantissa_rounded(1)[OF assms] by (metis of_int_le_iff of_int_numeral of_int_power)
  have hi: "of_int (round_half_even (x / ulp x)) \<le> (2 ^ 53 :: rat)"
    using mantissa_rounded(2)[OF assms] by (metis of_int_le_iff of_int_numeral of_int_power)
  show "2 powi exponent x \<le> round_number x"
    unfolding round_number_pos[OF assms] ulp_scaled
    using lo ulp_pos[of x] by (simp add: mult_right_mono)
  show "round_number x \<le> 2 powi (exponent x + 1)"
    unfolding round_number_pos[OF assms] ulp_scaled
    using hi ulp_pos[of x] by (simp add: mult_right_mono)
qed

lemma round_number_nonneg: "0 \<le> x \<Longrightarrow> 0 \<le> round_number x"
proof (cases "x = 0")
  case True
  then show ?thesis by (simp add: round_number_def)
next
  case False
  assume "0 \<le> x"
  with False have p: "0 < x" by simp
  have "(0::rat) \<le> 2 powi exponent x" by simp
  also have "\<dots> \<le> round_number x" by (rule round_number_binade(1)[OF p])
  finally show ?thesis .
qed

lemma round_number_mono:
  assumes "0 \<le> x" "x \<le> y"
  shows "round_number x \<le> round_number y"
proof (cases "x = 0")
  case True
  then show ?thesis using round_number_nonneg[of y] assms by (simp add: round_number_def)
next
  case False
  with assms have px: "0 < x" and py: "0 < y" by simp_all
  have le: "exponent x \<le> exponent y"
    by (rule exponent_mono[OF px assms(2)])
  show ?thesis
  proof (cases "exponent x = exponent y")
    case True
    then have u: "ulp x = ulp y" by (simp add: ulp_def)
    have "x / ulp y \<le> y / ulp y"
      using assms(2) ulp_pos[of y] by (simp add: divide_right_mono)
    then have "round_half_even (x / ulp y) \<le> round_half_even (y / ulp y)"
      by (rule round_half_even_mono)
    then have "(of_int (round_half_even (x / ulp y)) :: rat) \<le> of_int (round_half_even (y / ulp y))"
      by simp
    then show ?thesis
      unfolding round_number_pos[OF px] round_number_pos[OF py] u
      using ulp_pos[of y] by (simp add: mult_right_mono)
  next
    case False
    with le have "exponent x + 1 \<le> exponent y" by simp
    then have "(2::rat) powi (exponent x + 1) \<le> 2 powi exponent y"
      by (intro power_int_increasing) simp_all
    with round_number_binade(2)[OF px] round_number_binade(1)[OF py] show ?thesis by linarith
  qed
qed

lemma round_number_near:
  assumes "0 \<le> x"
  shows "x * (1 - 1 / 2 ^ 53) \<le> round_number x" "round_number x \<le> x * (1 + 1 / 2 ^ 53)"
proof -
  have both: "x * (1 - 1 / 2 ^ 53) \<le> round_number x \<and> round_number x \<le> x * (1 + 1 / 2 ^ 53)"
  proof (cases "x = 0")
    case True
    then show ?thesis by (simp add: round_number_def)
  next
    case False
    with assms have p: "0 < x" by simp
    define m where "m = x / ulp x"
    have x: "x = m * ulp x" using ulp_pos[of x] by (simp add: m_def)
    have big: "2 ^ 52 \<le> m" unfolding m_def by (rule mantissa_range(1)[OF p])
    have half: "1 / 2 \<le> m / 2 ^ 53" using big by simp
    have up: "of_int (round_half_even m) \<le> m + m / 2 ^ 53"
      using round_half_even_near(1)[of m] half by linarith
    have down: "m - m / 2 ^ 53 \<le> of_int (round_half_even m)"
      using round_half_even_near(2)[of m] half by linarith
    have f: "round_number x = of_int (round_half_even m) * ulp x"
      unfolding m_def by (rule round_number_pos[OF p])
    have "(m - m / 2 ^ 53) * ulp x \<le> round_number x"
      unfolding f using down ulp_pos[of x] by (simp only: mult_right_mono less_imp_le)
    moreover have "round_number x \<le> (m + m / 2 ^ 53) * ulp x"
      unfolding f using up ulp_pos[of x] by (simp only: mult_right_mono less_imp_le)
    moreover have "(m - m / 2 ^ 53) * ulp x = x * (1 - 1 / 2 ^ 53)"
      by (subst (2) x) (simp add: algebra_simps)
    moreover have "(m + m / 2 ^ 53) * ulp x = x * (1 + 1 / 2 ^ 53)"
      by (subst (2) x) (simp add: algebra_simps)
    ultimately show ?thesis by simp
  qed
  from both show "x * (1 - 1 / 2 ^ 53) \<le> round_number x" "round_number x \<le> x * (1 + 1 / 2 ^ 53)"
    by simp_all
qed

text \<open>Values the proofs below meet.\<close>

lemma round_number_values:
  "round_number 100 = 100"
  "round_number (1 + 1 / 2 ^ 53) = 1"
  "round_number (1 + 1 / 2 ^ 33) = 1 + 1 / 2 ^ 33"
  "round_number (100 + 1 / 2 ^ 27) = 100 + 1 / 2 ^ 27"
  by (simp_all add: number_eval)

section \<open>Properties of the occupancy aggregation\<close>

lemmas occupancy_simps =
  areaWithOccupancy_def Let_def ParkingArea.defs ParkingAreaWithOccupancy.defs

lemma count_status_Some:
  "count_status st (Some xs) = count_list (map s_status xs) st"
  by (induction xs) (simp_all add: count_status_def)

lemma counts_le_length:
  "count_list ys ''free'' + count_list ys ''occupied'' + count_list ys ''reserved'' \<le> length ys"
  by (induction ys) simp_all

lemma scenario_counts:
  "count_list (map s_status scenario_slots) ''free'' = 6"
  "count_list (map s_status scenario_slots) ''occupied'' = 3"
  "count_list (map s_status scenario_slots) ''reserved'' = 1"
  "length scenario_slots = 10"
  by (simp_all add: scenario_slots_def scenario_slot_def)

lemma busy_counts:
  "count_list (map s_status busy_slots) ''free'' = 9"
  "count_list (map s_status busy_slots) ''occupied'' = 11"
  "count_list (map s_status busy_slots) ''reserved'' = 0"
  by (simp_all add: busy_slots_def busy_slot_def)

text \<open>The percentage of \<open>n\<close> occupied or reserved slots at capacity \<open>t\<close>, as the page computes it.\<close>

lemma percentage_eq:
  assumes "a_total_slots area = Some totalSlots"
  shows "occupancyPercentage (areaWithOccupancy area False (Some rows))
           = (if 0 < totalSlots
              then round_number
                     (round_number
                        (round_number
                           (of_nat (count_list (map s_status rows) ''occupied''
                                    + count_list (map s_status rows) ''reserved''))
                         / of_int totalSlots) * 100)
              else 0)"
  using assms
  by (simp add: occupancy_simps count_status_Some or_zero_def number_add_def number_divide_def
      number_times_def)

lemma scenario_percentage:
  "occupancyPercentage (areaWithOccupancy scenario_area False (Some scenario_slots)) = 40"
proof -
  have "a_total_slots scenario_area = Some 10" by (simp add: scenario_area_def)
  then show ?thesis
    by (simp add: percentage_eq scenario_counts number_eval)
qed

text \<open>Three roundings stay within a relative error of \<open>2 ^ -51\<close>.\<close>

lemma rounded_percentage_near:
  fixes n :: nat and t :: int
  assumes "0 < t"
  defines "exact \<equiv> 100 * of_nat n / of_int t"
  defines "p \<equiv> round_number (round_number (round_number (of_nat n) / of_int t) * 100)"
  shows "exact * (1 - 1 / 2 ^ 51) \<le> p" "p \<le> exact * (1 + 1 / 2 ^ 51)"
proof -
  define lo :: rat where "lo = 1 - 1 / 2 ^ 53"
  define hi :: rat where "hi = 1 + 1 / 2 ^ 53"
  define a where "a = round_number (of_nat n)"
  define q where "q = round_number (a / of_int t)"
  have tpos: "(0::rat) < of_int t" using assms(1) by simp
  have lo_pos: "0 \<le> lo" and hi_pos: "0 \<le> hi" by (simp_all add: lo_def hi_def)
  have n0: "(0::rat) \<le> of_nat n" by simp
  have a_lo: "of_nat n * lo \<le> a" and a_hi: "a \<le> of_nat n * hi"
    unfolding a_def lo_def hi_def using round_number_near[OF n0] by simp_all
  have a0: "0 \<le> a" unfolding a_def by (rule round_number_nonneg[OF n0])
  have d0: "0 \<le> a / of_int t" using a0 tpos by simp
  have q_lo: "a / of_int t * lo \<le> q" and q_hi: "q \<le> a / of_int t * hi"
    unfolding q_def lo_def hi_def using round_number_near[OF d0] by simp_all
  have q0: "0 \<le> q" unfolding q_def by (rule round_number_nonneg[OF d0])
  have m0: "0 \<le> q * 100" using q0 by simp
  have p_eq: "p = round_number (q * 100)" by (simp add: p_def q_def a_def)
  have p_lo: "q * 100 * lo \<le> p" and p_hi: "p \<le> q * 100 * hi"
    unfolding p_eq lo_def hi_def using round_number_near[OF m0] by simp_all
  have e0: "0 \<le> exact" using tpos by (simp add: exact_def)
  have d_lo: "of_nat n * lo / of_int t \<le> a / of_int t"
    using a_lo tpos by (simp add: divide_right_mono)
  have d_hi: "a / of_int t \<le> of_nat n * hi / of_int t"
    using a_hi tpos by (simp add: divide_right_mono)
  have "exact * (lo * lo * lo) = of_nat n * lo / of_int t * lo * 100 * lo"
    by (simp add: exact_def)
  also have "\<dots> \<le> a / of_int t * lo * 100 * lo"
    using d_lo lo_pos by (intro mult_right_mono) simp_all
  also have "\<dots> \<le> q * 100 * lo"
    using q_lo lo_pos by (intro mult_right_mono) simp_all
  also have "\<dots> \<le> p" by (rule p_lo)
  finally have low: "exact * (lo * lo * lo) \<le> p" .
  have "p \<le> q * 100 * hi" by (rule p_hi)
  also have "\<dots> \<le> a / of_int t * hi * 100 * hi"
    using q_hi hi_pos by (intro mult_right_mono) simp_all
  also have "\<dots> \<le> of_nat n * hi / of_int t * hi * 100 * hi"
    using d_hi hi_pos by (intro mult_right_mono) simp_all
  also have "\<dots> = exact * (hi * hi * hi)"
    by (simp add: exact_def)
  finally have high: "p \<le> exact * (hi * hi * hi)" .
  have "1 - 1 / 2 ^ 51 \<le> lo * lo * lo" by (simp add: lo_def)
  then have "exact * (1 - 1 / 2 ^ 51) \<le> exact * (lo * lo * lo)"
    using e0 by (rule mult_left_mono)
  with low show "exact * (1 - 1 / 2 ^ 51) \<le> p" by linarith
  have "hi * hi * hi \<le> 1 + 1 / 2 ^ 51" by (simp add: hi_def)
  then have "exact * (hi * hi * hi) \<le> exact * (1 + 1 / 2 ^ 51)"
    using e0 by (rule mult_left_mono)
  with high show "p \<le> exact * (1 + 1 / 2 ^ 51)" by linarith
qed

text \<open>
  C1, as stated, fails on the percentage. With eleven of the slots occupied and a capacity of
  20, \<open>100 * 11 / 20\<close> is 55, and the page computes \<open>(11 / 20) * 100\<close> in binary64, which is
  \<open>55 + 2 ^ -47\<close> (printed 55.00000000000001).
\<close>

theorem occupancy_percentage_rounded:
  "a_total_slots busy_area = Some 20
   \<and> occupiedSlots (areaWithOccupancy busy_area False (Some busy_slots)) = 11
   \<and> reservedSlots (areaWithOccupancy busy_area False (Some busy_slots)) = 0
   \<and> occupancyPercentage (areaWithOccupancy busy_area False (Some busy_slots)) = 55 + 1 / 2 ^ 47
   \<and> occupancyPercentage (areaWithOccupancy busy_area False (Some busy_slots))
       \<noteq> 100 * (11 + 0) / 20"
proof -
  have t: "a_total_slots busy_area = Some 20" by (simp add: busy_area_def)
  have o: "occupiedSlots (areaWithOccupancy busy_area False (Some busy_slots)) = 11"
    and r: "reservedSlots (areaWithOccupancy busy_area False (Some busy_slots)) = 0"
    by (simp_all add: occupancy_simps count_status_Some busy_counts)
  have p: "occupancyPercentage (areaWithOccupancy busy_area False (Some busy_slots))
             = 55 + 1 / 2 ^ 47"
    by (simp add: percentage_eq[OF t] busy_counts number_eval)
  from t o r p show ?thesis by simp
qed

text \<open>
  C1, amended. For a slot list \<open>rows\<close> of an area whose declared capacity is \<open>totalSlots\<close>, the
  aggregation gives as free, occupied and reserved counts the number of rows whose status is
  exactly \<open>free\<close>, \<open>occupied\<close>, \<open>reserved\<close>. The percentage is 0 when the capacity is 0 (or
  less). When the capacity is positive it is \<open>((occupied + reserved) / totalSlots) * 100\<close> in
  binary64 arithmetic: a number within a relative error of \<open>2 ^ -51\<close> of
  \<open>100 * (occupied + reserved) / totalSlots\<close>, not always equal to it.
\<close>

theorem occupancy_counts_and_rounded_percentage:
  assumes "a_total_slots area = Some totalSlots"
  shows "freeSlots (areaWithOccupancy area False (Some rows))
           = Some (count_list (map s_status rows) ''free'')
       \<and> occupiedSlots (areaWithOccupancy area False (Some rows))
           = count_list (map s_status rows) ''occupied''
       \<and> reservedSlots (areaWithOccupancy area False (Some rows))
           = count_list (map s_status rows) ''reserved''
       \<and> (totalSlots \<le> 0 \<longrightarrow>
            occupancyPercentage (areaWithOccupancy area False (Some rows)) = 0)
       \<and> (0 < totalSlots \<longrightarrow>
            \<bar>occupancyPercentage (areaWithOccupancy area False (Some rows))
               - 100 * of_nat (count_list (map s_status rows) ''occupied''
                               + count_list (map s_status rows) ''reserved'') / of_int totalSlots\<bar>
            \<le> (100 * of_nat (count_list (map s_status rows) ''occupied''
                              + count_list (map s_status rows) ''reserved'') / of_int totalSlots)
               / 2 ^ 51)"
proof -
  let ?r = "areaWithOccupancy area False (Some rows)"
  let ?n = "count_list (map s_status rows) ''occupied'' + count_list (map s_status rows) ''reserved''"
  have counts: "freeSlots ?r = Some (count_list (map s_status rows) ''free'')"
    "occupiedSlots ?r = count_list (map s_status rows) ''occupied''"
    "reservedSlots ?r = count_list (map s_status rows) ''reserved''"
    by (simp_all add: occupancy_simps count_status_Some)
  have zero: "occupancyPercentage ?r = 0" if "totalSlots \<le> 0"
    using that by (simp add: percentage_eq[OF assms])
  have near: "\<bar>occupancyPercentage ?r - 100 * of_nat ?n / of_int totalSlots\<bar>
                \<le> (100 * of_nat ?n / of_int totalSlots) / 2 ^ 51" if "0 < totalSlots"
  proof -
    have p: "occupancyPercentage ?r
               = round_number (round_number (round_number (of_nat ?n) / of_int totalSlots) * 100)"
      using that by (simp add: percentage_eq[OF assms])
    define E :: rat where "E = 100 * of_nat ?n / of_int totalSlots"
    define P where
      "P = round_number (round_number (round_number (of_nat ?n) / of_int totalSlots) * 100)"
    have b: "E * (1 - 1 / 2 ^ 51) \<le> P" "P \<le> E * (1 + 1 / 2 ^ 51)"
      unfolding E_def P_def by (rule rounded_percentage_near[OF that])+
    define c where "c = E / 2 ^ 51"
    have lo: "E - c \<le> P" using b(1) by (simp add: c_def algebra_simps)
    have hi: "P \<le> E + c" using b(2) by (simp add: c_def algebra_simps)
    from lo hi have "\<bar>P - E\<bar> \<le> c" by (simp add: abs_le_iff)
    then show ?thesis
      unfolding c_def E_def P_def p .
  qed
  from counts zero near show ?thesis by blast
qed

text \<open>
  The scenario of the specification (capacity 10; 6 free, 3 occupied, 1 reserved) gives
  6, 3, 1 and exactly 40 percent; the same rows with capacity 0 give 0 percent.
\<close>

theorem occupancy_counts_and_rounded_percentage_witness:
  "a_total_slots scenario_area = Some 10
   \<and> freeSlots (areaWithOccupancy scenario_area False (Some scenario_slots)) = Some 6
   \<and> occupiedSlots (areaWithOccupancy scenario_area False (Some scenario_slots)) = 3
   \<and> reservedSlots (areaWithOccupancy scenario_area False (Some scenario_slots)) = 1
   \<and> \<bar>occupancyPercentage (areaWithOccupancy scenario_area False (Some scenario_slots)) - 40\<bar>
       \<le> 40 / 2 ^ 51
   \<and> occupancyPercentage (areaWithOccupancy scenario_area False (Some scenario_slots)) = 40
   \<and> a_total_slots (scenario_area\<lparr>a_total_slots := Some 0\<rparr>) = Some 0
   \<and> occupancyPercentage
        (areaWithOccupancy (scenario_area\<lparr>a_total_slots := Some 0\<rparr>) False (Some scenario_slots)) = 0"
proof -
  have h10: "a_total_slots scenario_area = Some 10"
    by (simp add: scenario_area_def)
  have h0: "a_total_slots (scenario_area\<lparr>a_total_slots := Some 0\<rparr>) = Some 0"
    by simp
  note t10 = occupancy_counts_and_rounded_percentage[OF h10, of scenario_slots]
  note t0 = occupancy_counts_and_rounded_percentage[OF h0, of scenario_slots]
  have near: "\<bar>occupancyPercentage (areaWithOccupancy scenario_area False (Some scenario_slots)) - 40\<bar>
       \<le> 40 / 2 ^ 51"
    using t10 by (simp add: scenario_counts)
  have zero: "occupancyPercentage
        (areaWithOccupancy (scenario_area\<lparr>a_total_slots := Some 0\<rparr>) False (Some scenario_slots)) = 0"
    using t0 by simp
  from t10 have counts:
    "freeSlots (areaWithOccupancy scenario_area False (Some scenario_slots)) = Some 6"
    "occupiedSlots (areaWithOccupancy scenario_area False (Some scenario_slots)) = 3"
    "reservedSlots (areaWithOccupancy scenario_area False (Some scenario_slots)) = 1"
    by (simp_all add: scenario_counts)
  from h10 h0 counts near zero scenario_percentage show ?thesis
    by blast
qed

text \<open>
  C2, as stated, fails. An area of declared capacity 1 with two occupied slots has an occupancy
  percentage of 200: the capacity is a field of the area and nothing bounds the slot list by it.
\<close>

theorem occupancy_percentage_above_100:
  "\<not> occupancyPercentage
        (areaWithOccupancy
           \<lparr>a_id = ''a1'', a_name = Some ''Mall'', a_lat = Some 13, a_lng = Some 78,
            a_total_slots = Some 1\<rparr>
           False
           (Some [\<lparr>s_id = ''s1'', s_parking_area_id = ''a1'', s_slot_number = 1,
                    s_status = ''occupied''\<rparr>,
                  \<lparr>s_id = ''s2'', s_parking_area_id = ''a1'', s_slot_number = 2,
                    s_status = ''occupied''\<rparr>])) \<le> 100"
  by (simp add: occupancy_simps count_status_def or_zero_def number_eval)

text \<open>
  Within the capacity the rounded percentage is at most 100; above it, for a count an array
  length can be, it is more than 100.
\<close>

lemma rounded_percentage_le_100:
  fixes n :: nat and t :: int
  assumes "0 < t" "int n \<le> t"
  shows "round_number (round_number (round_number (of_nat n) / of_int t) * 100) \<le> 100"
proof -
  define a where "a = round_number (of_nat n)"
  define q where "q = round_number (a / of_int t)"
  have tpos: "(0::rat) < of_int t" using assms(1) by simp
  have n0: "(0::rat) \<le> of_nat n" by simp
  have nt: "(of_nat n :: rat) \<le> of_int t"
    using assms(2) by (metis of_int_le_iff of_int_of_nat_eq)
  have a0: "0 \<le> a" unfolding a_def by (rule round_number_nonneg[OF n0])
  have "a \<le> of_nat n * (1 + 1 / 2 ^ 53)"
    unfolding a_def by (rule round_number_near(2)[OF n0])
  also have "\<dots> \<le> of_int t * (1 + 1 / 2 ^ 53)"
    using nt by (intro mult_right_mono) simp_all
  finally have "a / of_int t \<le> 1 + 1 / 2 ^ 53"
    using tpos by (simp add: pos_divide_le_eq mult.commute)
  moreover have d0: "0 \<le> a / of_int t" using a0 tpos by simp
  ultimately have "q \<le> round_number (1 + 1 / 2 ^ 53)"
    unfolding q_def by (intro round_number_mono)
  then have q1: "q \<le> 1" by (simp only: round_number_values)
  have q0: "0 \<le> q" unfolding q_def by (rule round_number_nonneg[OF d0])
  have "round_number (q * 100) \<le> round_number 100"
    using q0 q1 by (intro round_number_mono) simp_all
  then show ?thesis
    by (simp add: round_number_values q_def a_def)
qed

lemma rounded_percentage_gt_100:
  fixes n :: nat and t :: int
  assumes "0 < t" "t < int n" "n < 2 ^ 32"
  shows "100 < round_number (round_number (round_number (of_nat n) / of_int t) * 100)"
proof -
  define a where "a = round_number (of_nat n)"
  define q where "q = round_number (a / of_int t)"
  define N :: rat where "N = of_nat n"
  define T :: rat where "T = of_int t"
  have tpos: "0 < T" using assms(1) by (simp add: T_def)
  have n0: "0 \<le> N" by (simp add: N_def)
  have "t + 1 \<le> int n" using assms(2) by simp
  then have "(of_int (t + 1) :: rat) \<le> of_int (int n)" by (simp only: of_int_le_iff)
  then have more: "T + 1 \<le> N" by (simp add: T_def N_def)
  have "int n < 2 ^ 32" using assms(3) by (metis of_nat_less_iff of_nat_numeral of_nat_power)
  with assms(2) have "t < 2 ^ 32" by linarith
  then have "(of_int t :: rat) < of_int (2 ^ 32)" by (simp only: of_int_less_iff)
  then have small: "T < 2 ^ 32" by (simp add: T_def)
  have "N * (1 - 1 / 2 ^ 53) \<le> a"
    unfolding a_def N_def by (rule round_number_near(1)) simp
  moreover have "T * (1 + 1 / 2 ^ 33) \<le> N * (1 - 1 / 2 ^ 53)"
    using more small tpos by (simp add: algebra_simps)
  ultimately have "T * (1 + 1 / 2 ^ 33) \<le> a" by linarith
  then have big: "1 + 1 / 2 ^ 33 \<le> a / T"
    using tpos by (simp add: pos_le_divide_eq mult.commute)
  have "round_number (1 + 1 / 2 ^ 33) \<le> q"
    unfolding q_def T_def[symmetric] using big by (intro round_number_mono) simp_all
  then have q1: "1 + 1 / 2 ^ 33 \<le> q" by (simp only: round_number_values)
  then have "100 + 1 / 2 ^ 27 \<le> q * 100" by simp
  then have "round_number (100 + 1 / 2 ^ 27) \<le> round_number (q * 100)"
    by (intro round_number_mono) simp_all
  then have "100 + 1 / 2 ^ 27 \<le> round_number (q * 100)"
    by (simp only: round_number_values)
  then have "100 < round_number (q * 100)" by simp
  then show ?thesis
    by (simp add: q_def a_def N_def T_def)
qed

text \<open>
  C2, amended. For every slot list and every declared capacity greater than 0, the three
  counts add up to at most the number of rows and the percentage is at least 0; it is at most
  100 whenever the occupied and reserved rows together do not exceed the capacity, and, for a
  list of fewer than \<open>2 ^ 32\<close> rows (the most an array holds), exactly then.
\<close>

theorem occupancy_bounds:
  assumes "a_total_slots area = Some totalSlots" and "0 < totalSlots"
  shows "(\<exists>free. freeSlots (areaWithOccupancy area False (Some rows)) = Some free
            \<and> free + occupiedSlots (areaWithOccupancy area False (Some rows))
                 + reservedSlots (areaWithOccupancy area False (Some rows)) \<le> length rows)
       \<and> 0 \<le> occupancyPercentage (areaWithOccupancy area False (Some rows))
       \<and> (int (occupiedSlots (areaWithOccupancy area False (Some rows))
                + reservedSlots (areaWithOccupancy area False (Some rows))) \<le> totalSlots
            \<longrightarrow> occupancyPercentage (areaWithOccupancy area False (Some rows)) \<le> 100)
       \<and> (length rows < 2 ^ 32 \<longrightarrow>
            (occupancyPercentage (areaWithOccupancy area False (Some rows)) \<le> 100
             \<longleftrightarrow> int (occupiedSlots (areaWithOccupancy area False (Some rows))
                       + reservedSlots (areaWithOccupancy area False (Some rows))) \<le> totalSlots))"
proof -
  let ?r = "areaWithOccupancy area False (Some rows)"
  let ?ys = "map s_status rows"
  let ?n = "count_list ?ys ''occupied'' + count_list ?ys ''reserved''"
  have f: "freeSlots ?r = Some (count_list ?ys ''free'')"
    and o: "occupiedSlots ?r = count_list ?ys ''occupied''"
    and r: "reservedSlots ?r = count_list ?ys ''reserved''"
    by (simp_all add: occupancy_simps count_status_Some)
  have p: "occupancyPercentage ?r
             = round_number (round_number (round_number (of_nat ?n) / of_int totalSlots) * 100)"
    using assms(2) by (simp add: percentage_eq[OF assms(1)])
  have sum: "count_list ?ys ''free'' + occupiedSlots ?r + reservedSlots ?r \<le> length rows"
    using counts_le_length[of ?ys] by (simp add: o r)
  have nonneg: "0 \<le> occupancyPercentage ?r"
    unfolding p by (intro round_number_nonneg mult_nonneg_nonneg divide_nonneg_nonneg)
      (use assms(2) in simp_all)
  have within: "occupancyPercentage ?r \<le> 100" if "int (occupiedSlots ?r + reservedSlots ?r) \<le> totalSlots"
    unfolding p using that by (intro rounded_percentage_le_100[OF assms(2)]) (simp add: o r)
  have above: "100 < occupancyPercentage ?r"
    if "length rows < 2 ^ 32" "\<not> int (occupiedSlots ?r + reservedSlots ?r) \<le> totalSlots"
  proof -
    have "?n \<le> length rows" using counts_le_length[of ?ys] by simp
    with that(1) have "?n < 2 ^ 32" by linarith
    moreover have "totalSlots < int ?n" using that(2) by (simp add: o r)
    ultimately show ?thesis
      unfolding p by (intro rounded_percentage_gt_100[OF assms(2)])
  qed
  from f sum nonneg within above show ?thesis
    by (metis not_less)
qed

theorem occupancy_bounds_witness:
  "a_total_slots scenario_area = Some 10 \<and> (0::int) < 10
   \<and> length scenario_slots < 2 ^ 32
   \<and> (\<exists>free. freeSlots (areaWithOccupancy scenario_area False (Some scenario_slots)) = Some free
         \<and> free + occupiedSlots (areaWithOccupancy scenario_area False (Some scenario_slots))
              + reservedSlots (areaWithOccupancy scenario_area False (Some scenario_slots))
            \<le> length scenario_slots)
   \<and> 0 \<le> occupancyPercentage (areaWithOccupancy scenario_area False (Some scenario_slots))
   \<and> occupancyPercentage (areaWithOccupancy scenario_area False (Some scenario_slots)) \<le> 100"
proof -
  have h: "a_total_slots scenario_area = Some 10"
    by (simp add: scenario_area_def)
  have pos: "(0::int) < 10" by simp
  have len: "length scenario_slots < 2 ^ 32" by (simp add: scenario_counts)
  note t = occupancy_bounds[OF h pos, of scenario_slots]
  have small: "int (occupiedSlots (areaWithOccupancy scenario_area False (Some scenario_slots))
                 + reservedSlots (areaWithOccupancy scenario_area False (Some scenario_slots))) \<le> 10"
    by (simp add: occupancy_simps count_status_Some scenario_counts)
  from t small have "occupancyPercentage (areaWithOccupancy scenario_area False (Some scenario_slots)) \<le> 100"
    by blast
  with t h pos len show ?thesis by blast
qed

section \<open>Properties of the reservation workflow\<close>

lemma handleConfirmReservation_closed:
  "reserveSlotId d = [] \<Longrightarrow> handleConfirmReservation fails user d startTime endTime = (d, [])"
  by (simp add: handleConfirmReservation_def split: option.split)

lemma scenario_dialog_eq:
  "scenario_dialog = scenario_dashboard\<lparr>reserveSlotId := ''s1'', selectedSlotNumber := 1\<rparr>"
  by (simp add: scenario_dialog_def pressSlot_def press_def disabled_def onClick_def
      scenario_slot_def scenario_slots_def scenario_dashboard_def handleReserveSlot_def)

text \<open>
  The confirmation handler never reads the slot list: with another list in the state it makes
  the same requests and the same changes, and hands that list back.
\<close>

lemma confirm_ignores_slots:
  "handleConfirmReservation fails user (d\<lparr>slots := rows\<rparr>) startTime endTime
     = ((fst (handleConfirmReservation fails user d startTime endTime))\<lparr>slots := rows\<rparr>,
        snd (handleConfirmReservation fails user d startTime endTime))"
  by (simp add: handleConfirmReservation_def Let_def split: option.split)

text \<open>
  C3, as stated, fails on its conclusion. Slot \<open>s1\<close> is picked while it is free, the re-fetch
  then delivers it occupied, and the confirmation still sends the insert and the slot update
  for \<open>s1\<close>: the handler tests the user and the dialog slot id, not the slot's status.
\<close>

theorem confirm_writes_for_occupied_slot:
  "reserveSlotId scenario_refetched = ''s1''
   \<and> map s_id (take 1 (slots scenario_refetched)) = [''s1'']
   \<and> map s_status (take 1 (slots scenario_refetched)) = [''occupied'']
   \<and> writes (snd (handleConfirmReservation backend_ok (Some scenario_user) scenario_refetched
                     ''09:00'' ''10:00''))
       = [Request (Insert_reservation ''u1'' ''s1'' ''09:00'' ''10:00'' ''active''),
          Request (Update_slot_status ''s1'' ''reserved'')]"
  by (simp add: scenario_refetched_def fetchSlots_def scenario_dialog_eq scenario_dashboard_def
      scenario_slots_def scenario_slot_def scenario_user_def handleConfirmReservation_def
      backend_ok_def writes_def)

text \<open>
  C3, amended. Pressing a slot whose status is not \<open>free\<close> is rejected before any write: its
  button is disabled, its click handler calls the reserve callback not at all, and the press
  leaves the dashboard, the dialog slot id included, as it was; a confirmation after the press
  therefore does exactly what it would have done without it.
\<close>

theorem non_free_slot_press_rejected:
  assumes "s_status slot \<noteq> ''free''"
  shows "disabled slot
       \<and> onClick slot = []
       \<and> press slot = []
       \<and> pressSlot d slot = d
       \<and> handleConfirmReservation fails user (pressSlot d slot) startTime endTime
           = handleConfirmReservation fails user d startTime endTime"
proof -
  have dis: "disabled slot" using assms by (simp add: disabled_def)
  have clk: "onClick slot = []" using assms by (simp add: onClick_def)
  have prs: "press slot = []" using dis by (simp add: press_def)
  have same: "pressSlot d slot = d" by (simp add: pressSlot_def prs)
  from dis clk prs same show ?thesis by simp
qed

theorem non_free_slot_press_rejected_witness:
  "s_status (scenario_slot ''s2'' 2 ''occupied'') \<noteq> ''free''
   \<and> (disabled (scenario_slot ''s2'' 2 ''occupied'')
      \<and> onClick (scenario_slot ''s2'' 2 ''occupied'') = []
      \<and> press (scenario_slot ''s2'' 2 ''occupied'') = []
      \<and> pressSlot scenario_dialog (scenario_slot ''s2'' 2 ''occupied'') = scenario_dialog
      \<and> handleConfirmReservation backend_ok (Some scenario_user)
            (pressSlot scenario_dialog (scenario_slot ''s2'' 2 ''occupied'')) ''09:00'' ''10:00''
          = handleConfirmReservation backend_ok (Some scenario_user) scenario_dialog
              ''09:00'' ''10:00'')"
proof -
  have h: "s_status (scenario_slot ''s2'' 2 ''occupied'') \<noteq> ''free''"
    by (simp add: scenario_slot_def)
  show ?thesis
    by (rule conjI[OF h non_free_slot_press_rejected[OF h]])
qed

text \<open>
  C4, as stated, fails on the local slot state. With slot \<open>s1\<close> free and picked, a confirmed
  reservation whose insert succeeds leaves \<open>s1\<close> with status \<open>free\<close> in the dashboard's slot
  list: the handler never calls \<open>setSlots\<close>.
\<close>

theorem confirm_leaves_local_slot_free:
  "reserveSlotId scenario_dialog = ''s1''
   \<and> map s_id (take 1 (slots scenario_dialog)) = [''s1'']
   \<and> map s_status (take 1 (slots scenario_dialog)) = [''free'']
   \<and> map s_id (take 1 (slots (fst (handleConfirmReservation backend_ok (Some scenario_user)
                                     scenario_dialog ''09:00'' ''10:00'')))) = [''s1'']
   \<and> map s_status (take 1 (slots (fst (handleConfirmReservation backend_ok (Some scenario_user)
                                         scenario_dialog ''09:00'' ''10:00'')))) = [''free'']"
  by (simp add: scenario_dialog_eq handleConfirmReservation_def backend_ok_def
      scenario_dashboard_def scenario_slots_def scenario_slot_def)

text \<open>
  C4, amended. For a signed-in user and a picked slot, when the insert succeeds: the requests
  are the insert and then the update of the slot's status to \<open>reserved\<close>, with no query among
  them; the success message is shown; exactly one entry, the slot's id, is appended to the
  user's reservations; the dialog slot id is cleared; the local slot list is left as it was.
\<close>

theorem confirm_success:
  assumes "reserveSlotId d \<noteq> []"
    and "\<not> fails (Insert_reservation (u_id u) (reserveSlotId d) startTime endTime ''active'')"
  shows "writes (snd (handleConfirmReservation fails (Some u) d startTime endTime))
           = [Request (Insert_reservation (u_id u) (reserveSlotId d) startTime endTime ''active''),
              Request (Update_slot_status (reserveSlotId d) ''reserved'')]
       \<and> filter (\<lambda>e. \<not> is_write e) (snd (handleConfirmReservation fails (Some u) d startTime endTime))
           = [Toast_success ''Slot reserved successfully!'']
       \<and> userReservations (fst (handleConfirmReservation fails (Some u) d startTime endTime))
           = userReservations d @ [reserveSlotId d]
       \<and> reserveSlotId (fst (handleConfirmReservation fails (Some u) d startTime endTime)) = []
       \<and> slots (fst (handleConfirmReservation fails (Some u) d startTime endTime)) = slots d"
  using assms by (simp add: handleConfirmReservation_def writes_def)

theorem confirm_success_witness:
  "reserveSlotId scenario_dialog \<noteq> []
   \<and> \<not> backend_ok (Insert_reservation (u_id scenario_user) (reserveSlotId scenario_dialog)
                     ''09:00'' ''10:00'' ''active'')
   \<and> writes (snd (handleConfirmReservation backend_ok (Some scenario_user) scenario_dialog
                     ''09:00'' ''10:00''))
       = [Request (Insert_reservation ''u1'' ''s1'' ''09:00'' ''10:00'' ''active''),
          Request (Update_slot_status ''s1'' ''reserved'')]
   \<and> userReservations (fst (handleConfirmReservation backend_ok (Some scenario_user)
                                scenario_dialog ''09:00'' ''10:00'')) = [''s1'']
   \<and> reserveSlotId (fst (handleConfirmReservation backend_ok (Some scenario_user)
                             scenario_dialog ''09:00'' ''10:00'')) = []
   \<and> slots (fst (handleConfirmReservation backend_ok (Some scenario_user)
                     scenario_dialog ''09:00'' ''10:00'')) = scenario_slots"
proof -
  have open_dialog: "reserveSlotId scenario_dialog \<noteq> []"
    by (simp add: scenario_dialog_eq)
  have ok: "\<not> backend_ok (Insert_reservation (u_id scenario_user) (reserveSlotId scenario_dialog)
                     ''09:00'' ''10:00'' ''active'')"
    by (simp add: backend_ok_def)
  note t = confirm_success[where fails = backend_ok and u = scenario_user
      and d = scenario_dialog and startTime = "''09:00''" and endTime = "''10:00''",
      OF open_dialog ok]
  have v: "u_id scenario_user = ''u1''" "reserveSlotId scenario_dialog = ''s1''"
    "userReservations scenario_dialog = []" "slots scenario_dialog = scenario_slots"
    by (simp_all add: scenario_user_def scenario_dialog_eq scenario_dashboard_def)
  from open_dialog ok t show ?thesis
    by (simp add: v)
qed

text \<open>
  C5. For a signed-in user and a picked slot, reservation creation writes twice, in this order:
  the insert of a reservation with status \<open>active\<close>, then the update of the slot's status to
  \<open>reserved\<close>. When the insert fails, the error message is shown, the insert is the only
  request and the dashboard state is returned unchanged.
\<close>

theorem confirm_writes_in_order:
  assumes "reserveSlotId d \<noteq> []"
  shows "(if fails (Insert_reservation (u_id u) (reserveSlotId d) startTime endTime ''active'')
          then handleConfirmReservation fails (Some u) d startTime endTime
                 = (d, [Request (Insert_reservation (u_id u) (reserveSlotId d) startTime endTime ''active''),
                        Toast_error ''Failed to create reservation''])
          else writes (snd (handleConfirmReservation fails (Some u) d startTime endTime))
                 = [Request (Insert_reservation (u_id u) (reserveSlotId d) startTime endTime ''active''),
                    Request (Update_slot_status (reserveSlotId d) ''reserved'')])"
  using assms by (simp add: handleConfirmReservation_def writes_def)

theorem confirm_writes_in_order_witness:
  "reserveSlotId scenario_dialog \<noteq> []
   \<and> handleConfirmReservation backend_down (Some scenario_user) scenario_dialog ''09:00'' ''10:00''
       = (scenario_dialog,
          [Request (Insert_reservation ''u1'' ''s1'' ''09:00'' ''10:00'' ''active''),
           Toast_error ''Failed to create reservation''])
   \<and> writes (snd (handleConfirmReservation slot_updates_fail (Some scenario_user) scenario_dialog
                     ''09:00'' ''10:00''))
       = [Request (Insert_reservation ''u1'' ''s1'' ''09:00'' ''10:00'' ''active''),
          Request (Update_slot_status ''s1'' ''reserved'')]"
proof -
  have open_dialog: "reserveSlotId scenario_dialog \<noteq> []"
    by (simp add: scenario_dialog_eq)
  note down = confirm_writes_in_order[where fails = backend_down and u = scenario_user
      and startTime = "''09:00''" and endTime = "''10:00''", OF open_dialog]
  note up = confirm_writes_in_order[where fails = slot_updates_fail and u = scenario_user
      and startTime = "''09:00''" and endTime = "''10:00''", OF open_dialog]
  have v: "u_id scenario_user = ''u1''" "reserveSlotId scenario_dialog = ''s1''"
    by (simp_all add: scenario_user_def scenario_dialog_eq scenario_dashboard_def)
  from open_dialog down up show ?thesis
    by (simp add: v backend_down_def)
qed

section \<open>Properties of the cancellation\<close>

lemma active_after_cancel:
  "filter (\<lambda>r. r_status r = ''active'')
     (map (\<lambda>res. if r_id res = rid then res\<lparr>r_status := ''cancelled''\<rparr> else res) rs)
   = filter (\<lambda>r. r_id r \<noteq> rid) (filter (\<lambda>r. r_status r = ''active'') rs)"
  by (induction rs) simp_all

lemma cancelled_status:
  "map r_status (filter (\<lambda>r. r_id r = rid)
     (map (\<lambda>res. if r_id res = rid then res\<lparr>r_status := ''cancelled''\<rparr> else res) rs))
   = map (\<lambda>r. ''cancelled'') (filter (\<lambda>r. r_id r = rid) rs)"
  by (induction rs) simp_all

lemma others_untouched:
  "filter (\<lambda>r. r_id r \<noteq> rid)
     (map (\<lambda>res. if r_id res = rid then res\<lparr>r_status := ''cancelled''\<rparr> else res) rs)
   = filter (\<lambda>r. r_id r \<noteq> rid) rs"
  by (induction rs) simp_all

text \<open>
  C6. A cancellation first updates the reservation's status to \<open>cancelled\<close>. If that update
  fails, the handler stops: the error is logged and shown, no slot update is sent and the
  state is unchanged. Otherwise the slot's status is updated to \<open>free\<close> next, and whether or
  not that second update fails (a failure is only logged, nothing is undone, the success
  message is shown), every reservation with that id is \<open>cancelled\<close> in the local state, the
  others are untouched, and the active reservations are the former ones without that id.
\<close>

theorem cancel_reservation:
  "(if fails (Update_reservation_status reservationId ''cancelled'')
    then handleCancelReservation fails p reservationId slotId
           = (p, [Request (Update_reservation_status reservationId ''cancelled''),
                  Console_error ''Error cancelling reservation:'',
                  Toast_error ''Failed to cancel reservation''])
    else writes (snd (handleCancelReservation fails p reservationId slotId))
           = [Request (Update_reservation_status reservationId ''cancelled''),
              Request (Update_slot_status slotId ''free'')]
       \<and> filter (\<lambda>e. \<not> is_write e) (snd (handleCancelReservation fails p reservationId slotId))
           = (if fails (Update_slot_status slotId ''free'')
              then [Console_error ''Error updating slot status:'',
                    Toast_success ''Reservation cancelled successfully'']
              else [Toast_success ''Reservation cancelled successfully''])
       \<and> activeReservations (fst (handleCancelReservation fails p reservationId slotId))
           = filter (\<lambda>r. r_id r \<noteq> reservationId) (activeReservations p)
       \<and> map r_status (filter (\<lambda>r. r_id r = reservationId)
            (reservations (fst (handleCancelReservation fails p reservationId slotId))))
           = map (\<lambda>r. ''cancelled'') (filter (\<lambda>r. r_id r = reservationId) (reservations p))
       \<and> filter (\<lambda>r. r_id r \<noteq> reservationId)
            (reservations (fst (handleCancelReservation fails p reservationId slotId)))
           = filter (\<lambda>r. r_id r \<noteq> reservationId) (reservations p))"
proof (cases "fails (Update_reservation_status reservationId ''cancelled'')")
  case True
  then show ?thesis by (simp add: handleCancelReservation_def Let_def)
next
  case False
  let ?q = "fst (handleCancelReservation fails p reservationId slotId)"
  have rs: "reservations ?q
              = map (\<lambda>res. if r_id res = reservationId then res\<lparr>r_status := ''cancelled''\<rparr> else res)
                  (reservations p)"
    using False by (simp add: handleCancelReservation_def Let_def)
  have w: "writes (snd (handleCancelReservation fails p reservationId slotId))
           = [Request (Update_reservation_status reservationId ''cancelled''),
              Request (Update_slot_status slotId ''free'')]"
    using False by (simp add: handleCancelReservation_def writes_def Let_def)
  have n: "filter (\<lambda>e. \<not> is_write e) (snd (handleCancelReservation fails p reservationId slotId))
           = (if fails (Update_slot_status slotId ''free'')
              then [Console_error ''Error updating slot status:'',
                    Toast_success ''Reservation cancelled successfully'']
              else [Toast_success ''Reservation cancelled successfully''])"
    using False by (simp add: handleCancelReservation_def Let_def)
  have a: "activeReservations ?q = filter (\<lambda>r. r_id r \<noteq> reservationId) (activeReservations p)"
    unfolding activeReservations_def rs by (rule active_after_cancel)
  have c: "map r_status (filter (\<lambda>r. r_id r = reservationId) (reservations ?q))
           = map (\<lambda>r. ''cancelled'') (filter (\<lambda>r. r_id r = reservationId) (reservations p))"
    unfolding rs by (rule cancelled_status)
  have o: "filter (\<lambda>r. r_id r \<noteq> reservationId) (reservations ?q)
           = filter (\<lambda>r. r_id r \<noteq> reservationId) (reservations p)"
    unfolding rs by (rule others_untouched)
  from False w n a c o show ?thesis by simp
qed

theorem cancel_reservation_witness:
  "handleCancelReservation backend_down scenario_profile ''r1'' ''s1''
     = (scenario_profile,
        [Request (Update_reservation_status ''r1'' ''cancelled''),
         Console_error ''Error cancelling reservation:'',
         Toast_error ''Failed to cancel reservation''])
   \<and> writes (snd (handleCancelReservation slot_updates_fail scenario_profile ''r1'' ''s1''))
       = [Request (Update_reservation_status ''r1'' ''cancelled''),
          Request (Update_slot_status ''s1'' ''free'')]
   \<and> filter (\<lambda>e. \<not> is_write e)
         (snd (handleCancelReservation slot_updates_fail scenario_profile ''r1'' ''s1''))
       = [Console_error ''Error updating slot status:'',
          Toast_success ''Reservation cancelled successfully'']
   \<and> map r_id (activeReservations scenario_profile) = [''r1'', ''r2'']
   \<and> map r_id (activeReservations
         (fst (handleCancelReservation slot_updates_fail scenario_profile ''r1'' ''s1''))) = [''r2'']"
proof -
  note down = cancel_reservation[of backend_down "''r1''" scenario_profile "''s1''"]
  note partial = cancel_reservation[of slot_updates_fail "''r1''" scenario_profile "''s1''"]
  have a: "map r_id (activeReservations scenario_profile) = [''r1'', ''r2'']"
    "map r_id (filter (\<lambda>r. r_id r \<noteq> ''r1'') (activeReservations scenario_profile)) = [''r2'']"
    by (simp_all add: activeReservations_def scenario_profile_def scenario_reservation_def)
  from down partial show ?thesis
    by (simp add: backend_down_def a)
qed

section \<open>Properties of the system status indicator\<close>

lemma calculateStatusLevel_level:
  "statusLevel (calculateStatusLevel getTime now lastHeartbeat currentStatus ind)
     = (if currentStatus = ''online'' then Healthy else Critical)"
  by (simp add: calculateStatusLevel_def Let_def)

lemma fetchSystemStatus_row:
  "fetchSystemStatus getTime now (Reply False (Some row)) ind
     = calculateStatusLevel getTime now (ss_last_heartbeat row) (ss_status row)
         (ind\<lparr>systemStatus := Some row\<rparr>)"
  by (simp add: fetchSystemStatus_def)

text \<open>
  C7. The classifier gives \<open>Healthy\<close> when the status is \<open>online\<close>, whatever the clock and the
  heartbeat are, \<open>Critical\<close> when it is \<open>offline\<close> and \<open>Critical\<close> for every other status; a fetch
  that delivers a record classifies by that record's status; a fetch for a system id with no
  record ends \<open>Critical\<close> with the last-seen text \<open>Never\<close>.
\<close>

theorem status_classification:
  "(currentStatus = ''online'' \<longrightarrow>
      statusLevel (calculateStatusLevel getTime now lastHeartbeat currentStatus ind) = Healthy)
   \<and> (currentStatus = ''offline'' \<longrightarrow>
      statusLevel (calculateStatusLevel getTime now lastHeartbeat currentStatus ind) = Critical)
   \<and> (currentStatus \<noteq> ''online'' \<and> currentStatus \<noteq> ''offline'' \<longrightarrow>
      statusLevel (calculateStatusLevel getTime now lastHeartbeat currentStatus ind) = Critical)
   \<and> statusLevel (fetchSystemStatus getTime now (single [row]) ind)
       = statusLevel (calculateStatusLevel getTime now (ss_last_heartbeat row) (ss_status row) ind)
   \<and> statusLevel (fetchSystemStatus getTime now (single []) ind) = Critical
   \<and> lastSeenText (fetchSystemStatus getTime now (single []) ind) = ''Never''"
proof -
  have found: "statusLevel (fetchSystemStatus getTime now (single [row]) ind)
       = statusLevel (calculateStatusLevel getTime now (ss_last_heartbeat row) (ss_status row) ind)"
    by (simp add: fetchSystemStatus_row calculateStatusLevel_level)
  have never: "statusLevel (fetchSystemStatus getTime now (single []) ind) = Critical"
    "lastSeenText (fetchSystemStatus getTime now (single []) ind) = ''Never''"
    by (simp_all add: fetchSystemStatus_def)
  from found never show ?thesis
    by (simp add: calculateStatusLevel_level)
qed

theorem status_classification_witness:
  "statusLevel (calculateStatusLevel scenario_getTime 7200000 ''08:00'' ''online'' (initial None))
     = Healthy
   \<and> lastSeenText (calculateStatusLevel scenario_getTime 7200000 ''08:00'' ''online'' (initial None))
     = ''120 min ago''
   \<and> statusLevel (calculateStatusLevel scenario_getTime 7200000 ''08:00'' ''offline'' (initial None))
     = Critical
   \<and> statusLevel (calculateStatusLevel scenario_getTime 7200000 ''08:00'' ''maintenance'' (initial None))
     = Critical
   \<and> statusLevel (fetchSystemStatus scenario_getTime 7200000 (single [scenario_status ''online''])
        (initial None)) = Healthy
   \<and> statusLevel (fetchSystemStatus scenario_getTime 7200000 (single []) (initial None)) = Critical
   \<and> lastSeenText (fetchSystemStatus scenario_getTime 7200000 (single []) (initial None)) = ''Never''"
proof -
  note t_on = status_classification[of "''online''" scenario_getTime 7200000 "''08:00''"
      "initial None" "scenario_status ''online''"]
  note t_off = status_classification[of "''offline''" scenario_getTime 7200000 "''08:00''"
      "initial None" "scenario_status ''offline''"]
  note t_other = status_classification[of "''maintenance''" scenario_getTime 7200000 "''08:00''"
      "initial None" "scenario_status ''maintenance''"]
  have row: "ss_status (scenario_status ''online'') = ''online''"
    "ss_last_heartbeat (scenario_status ''online'') = ''08:00''"
    by (simp_all add: scenario_status_def)
  have shown: "lastSeenText (calculateStatusLevel scenario_getTime 7200000 ''08:00'' ''online'' (initial None))
     = ''120 min ago''"
    by (simp add: calculateStatusLevel_def diffMinutes_def show_number_def show_int_def
        show_nat.simps Let_def)
  from t_on t_off t_other shown show ?thesis
    by (simp add: row)
qed

lemma step_not_warning:
  "statusLevel ind \<noteq> Warning \<Longrightarrow> statusLevel (step getTime ind e) \<noteq> Warning"
  by (cases e)
     (simp_all add: fetchSystemStatus_def calculateStatusLevel_level
        split: reply.split option.split)

lemma run_not_warning:
  "statusLevel ind \<noteq> Warning \<Longrightarrow> statusLevel (run getTime ind events) \<noteq> Warning"
  unfolding run_def
  by (induction events arbitrary: ind) (simp_all add: step_not_warning)

text \<open>
  C8. From the initial state (level \<open>Critical\<close>), no sequence of runs of the system id effect,
  fetch results, subscription payloads and timer firings leaves the level at \<open>Warning\<close>.
\<close>

theorem warning_never_reached:
  "statusLevel (run getTime (initial sid) events) \<noteq> Warning"
proof -
  have "statusLevel (initial sid) \<noteq> Warning"
    by (simp add: initial_def)
  then show ?thesis
    by (rule run_not_warning)
qed

theorem warning_never_reached_witness:
  "statusLevel (run scenario_getTime (initial None)
      [SystemId_effect None,
       Fetch_resolved 60000 (single [scenario_status ''online'']),
       Timer 90000,
       Payload 120000 (Some (scenario_status ''offline'')),
       SystemId_effect (Some ''parking_monitor_mall''),
       Fetch_resolved 130000 (single [])]) \<noteq> Warning"
  by (rule warning_never_reached)

text \<open>The other two levels are reached: \<open>Healthy\<close> after an online record, \<open>Critical\<close> after an offline payload.\<close>

lemma healthy_and_critical_reached:
  "statusLevel (run scenario_getTime (initial None)
      [SystemId_effect None,
       Fetch_resolved 60000 (single [scenario_status ''online'']),
       Timer 90000]) = Healthy
   \<and> lastSeenText (run scenario_getTime (initial None)
      [SystemId_effect None,
       Fetch_resolved 60000 (single [scenario_status ''online'']),
       Timer 90000]) = ''1 min ago''
   \<and> statusLevel (run scenario_getTime (initial None)
      [SystemId_effect None,
       Fetch_resolved 60000 (single [scenario_status ''online'']),
       Payload 120000 (Some (scenario_status ''offline''))]) = Critical"
  by (simp add: run_def initial_def fetchSystemStatus_def calculateStatusLevel_def
      scenario_status_def diffMinutes_def Let_def targetSystemId_def show_number_def
      show_int_def show_nat.simps)

section \<open>Properties of the map markers\<close>

subsection \<open>Activation\<close>

lemmas activation_simps =
  markerClicked_def handleMarkerClick_def timerCallback_def togglePopup_def openPopup_def
  closePopup_def clearTimeout_def Let_def

lemma settled_newMarker: "settled newMarker"
  by (simp add: settled_def newMarker_def)

lemma settled_activate: "settled m \<Longrightarrow> settled (fst (activate areaId m a))"
proof (cases a)
  case Click
  assume "settled m"
  then show ?thesis
    unfolding Click
    by (auto simp: settled_def activation_simps split: list.splits)
next
  case (Timeout hasLayer)
  assume "settled m"
  then show ?thesis
    unfolding Timeout
    by (auto simp: settled_def activation_simps split: list.splits)
next
  case Dismiss
  assume "settled m"
  then show ?thesis
    unfolding Dismiss
    by (auto simp: settled_def activation_simps split: list.splits)
next
  case Cleanup
  assume "settled m"
  then show ?thesis
    unfolding Cleanup
    by (auto simp: settled_def clearTimeout_def split: list.splits option.splits)
qed

lemma settled_activations: "settled m \<Longrightarrow> settled (fst (activations areaId m as))"
proof (induction as arbitrary: m)
  case Nil
  then show ?case by simp
next
  case (Cons a as)
  from Cons.prems have "settled (fst (activate areaId m a))"
    by (rule settled_activate)
  then have "settled (fst (activations areaId (fst (activate areaId m a)) as))"
    by (rule Cons.IH)
  then show ?case
    by (simp add: split_beta)
qed

lemma activations_append:
  "activations areaId m (as @ bs) =
     (fst (activations areaId (fst (activations areaId m as)) bs),
      snd (activations areaId m as) @ snd (activations areaId (fst (activations areaId m as)) bs))"
  by (induction as arbitrary: m) (simp_all add: split_beta)

lemma idle_no_timer:
  "settled m \<Longrightarrow> listening m \<Longrightarrow> clickCount m = 0 \<Longrightarrow> timers m = []"
  by (auto simp: settled_def split: list.splits)

text \<open>
  What the marker does from a state with the handler registered, no click counted and no
  timer scheduled. One activation and then its timer (the marker on the map): no area is
  selected and the popup is open afterwards. Two activations with no timer between them:
  exactly one area selection, no timer left, and the popup toggled by the widget at each of
  the two clicks, so that it is opened at the first when it was closed.
\<close>

lemma idle_single:
  assumes "listening m" "clickCount m = 0" "timers m = []"
  shows "filter is_area_select (snd (activations areaId m [Click, Timeout True])) = []"
    and "popupOpen (fst (activations areaId m [Click, Timeout True]))"
  using assms by (simp_all add: activation_simps)

lemma idle_double:
  assumes "listening m" "clickCount m = 0" "timers m = []"
  shows "snd (activations areaId m [Click, Click])
           = (if popupOpen m then [Close_popup, Area_select areaId, Open_popup]
              else [Open_popup, Area_select areaId, Close_popup])"
    and "timers (fst (activations areaId m [Click, Click])) = []"
    and "clickCount (fst (activations areaId m [Click, Click])) = 0"
    and "snd (activations areaId m [Click, Click, Timeout hasLayer])
           = snd (activations areaId m [Click, Click])"
  using assms by (simp_all add: activation_simps)

lemma single_and_double_activation:
  assumes "listening (fst (activations areaId newMarker before))"
    and "clickCount (fst (activations areaId newMarker before)) = 0"
  shows "filter is_area_select (snd (activations areaId newMarker (before @ [Click, Timeout True])))
           = filter is_area_select (snd (activations areaId newMarker before))"
    and "popupOpen (fst (activations areaId newMarker (before @ [Click, Timeout True])))"
    and "filter is_area_select (snd (activations areaId newMarker (before @ [Click, Click])))
           = filter is_area_select (snd (activations areaId newMarker before)) @ [Area_select areaId]"
    and "timers (fst (activations areaId newMarker (before @ [Click, Click]))) = []"
    and "filter (\<lambda>e. \<not> is_area_select e)
           (snd (activations areaId newMarker (before @ [Click, Click])))
           = filter (\<lambda>e. \<not> is_area_select e) (snd (activations areaId newMarker before))
             @ (if popupOpen (fst (activations areaId newMarker before))
                then [Close_popup, Open_popup] else [Open_popup, Close_popup])"
proof -
  let ?m = "fst (activations areaId newMarker before)"
  have "settled ?m"
    using settled_newMarker by (rule settled_activations)
  then have none: "timers ?m = []"
    using assms by (rule idle_no_timer)
  note single = idle_single[OF assms none, of areaId]
  note double = idle_double[OF assms none, of areaId]
  show "filter is_area_select (snd (activations areaId newMarker (before @ [Click, Timeout True])))
           = filter is_area_select (snd (activations areaId newMarker before))"
    unfolding activations_append[of areaId newMarker before] using single by simp
  show "popupOpen (fst (activations areaId newMarker (before @ [Click, Timeout True])))"
    unfolding activations_append[of areaId newMarker before] using single by simp
  show "filter is_area_select (snd (activations areaId newMarker (before @ [Click, Click])))
           = filter is_area_select (snd (activations areaId newMarker before)) @ [Area_select areaId]"
    unfolding activations_append[of areaId newMarker before] using double by simp
  show "timers (fst (activations areaId newMarker (before @ [Click, Click]))) = []"
    unfolding activations_append[of areaId newMarker before] using double by simp
  show "filter (\<lambda>e. \<not> is_area_select e)
           (snd (activations areaId newMarker (before @ [Click, Click])))
           = filter (\<lambda>e. \<not> is_area_select e) (snd (activations areaId newMarker before))
             @ (if popupOpen (fst (activations areaId newMarker before))
                then [Close_popup, Open_popup] else [Open_popup, Close_popup])"
    unfolding activations_append[of areaId newMarker before] using double by simp
qed

text \<open>
  C9. The code does not keep the second half of the claim. A fresh marker with its popup
  closed, activated twice with no timer firing between: the handler selects the area once and
  clears its timer, as claimed, but the widget's click listener, registered by \<open>bindPopup\<close>,
  opens the popup at the first activation and closes it at the second. The timer that was
  meant to hold the popup back until no second activation came does not hold it back.
\<close>

theorem double_activation_opens_popup:
  "snd (activations ''a1'' newMarker [Click, Click])
     = [Open_popup, Area_select ''a1'', Close_popup]
   \<and> timers (fst (activations ''a1'' newMarker [Click, Click])) = []
   \<and> snd (activations ''a1'' newMarker [Click, Timeout True]) = [Open_popup]"
  by (simp add: newMarker_def activation_simps)

subsection \<open>The marker loop\<close>

lemma areaMarkers_length: "length (areaMarkers e) = (if areaMarkers e \<noteq> [] then 1 else 0)"
  by (simp add: areaMarkers_def split: option.splits)

lemma markers_length:
  "length (markers parkingAreas) = length (filter (\<lambda>e. areaMarkers e \<noteq> []) parkingAreas)"
proof (induction parkingAreas)
  case Nil
  then show ?case by (simp add: markers_def)
next
  case (Cons e es)
  have "length (markers (e # es)) = length (areaMarkers e) + length (markers es)"
    by (simp add: markers_def)
  with Cons show ?case
    by (simp add: areaMarkers_length)
qed

text \<open>
  C10. A \<open>null\<close> entry, and an area whose latitude or longitude is \<open>null\<close> or 0, whose name is
  \<open>null\<close> or empty, or whose free-slot count is \<open>null\<close>, gives no marker. Every other area
  gives exactly one marker, at its coordinates, labelled with its free-slot count and its
  name, red (\<open>#EF4444\<close>) when the occupancy percentage is above 80, amber (\<open>#F59E0B\<close>) when it
  is above 50, green (\<open>#10B981\<close>) otherwise. The layer has as many markers as the list has
  entries that give one.
\<close>

theorem marker_of_area:
  "areaMarkers None = []
   \<and> (a_lat area = None \<or> a_lat area = Some 0 \<or> a_lng area = None \<or> a_lng area = Some 0
        \<or> a_name area = None \<or> a_name area = Some [] \<or> freeSlots area = None
       \<longrightarrow> areaMarkers (Some area) = [])
   \<and> (a_lat area = Some lat \<and> lat \<noteq> 0 \<and> a_lng area = Some lng \<and> lng \<noteq> 0
        \<and> a_name area = Some name \<and> name \<noteq> [] \<and> freeSlots area = Some free
       \<longrightarrow> areaMarkers (Some area)
            = [\<lparr>m_area_id = a_id area, m_lat = lat, m_lng = lng,
                m_color = (if occupancyPercentage area > 80 then ''#EF4444''
                           else if occupancyPercentage area > 50 then ''#F59E0B''
                           else ''#10B981''),
                m_label = free, m_name = name\<rparr>])
   \<and> length (markers parkingAreas)
       = length (filter (\<lambda>e. areaMarkers e \<noteq> []) parkingAreas)"
proof -
  have none: "areaMarkers None = []"
    by (simp add: areaMarkers_def)
  have skipped: "areaMarkers (Some area) = []"
    if "a_lat area = None \<or> a_lat area = Some 0 \<or> a_lng area = None \<or> a_lng area = Some 0
        \<or> a_name area = None \<or> a_name area = Some [] \<or> freeSlots area = None"
    using that
    by (auto simp: areaMarkers_def truthy_number_def truthy_string_def split: option.splits)
  have drawn: "areaMarkers (Some area)
            = [\<lparr>m_area_id = a_id area, m_lat = lat, m_lng = lng,
                m_color = (if occupancyPercentage area > 80 then ''#EF4444''
                           else if occupancyPercentage area > 50 then ''#F59E0B''
                           else ''#10B981''),
                m_label = free, m_name = name\<rparr>]"
    if "a_lat area = Some lat \<and> lat \<noteq> 0 \<and> a_lng area = Some lng \<and> lng \<noteq> 0
        \<and> a_name area = Some name \<and> name \<noteq> [] \<and> freeSlots area = Some free"
    using that
    by (simp add: areaMarkers_def truthy_number_def truthy_string_def occupancyColor_def)
  from none skipped drawn markers_length[of parkingAreas] show ?thesis
    by blast
qed

lemma scenario_map_area_fields:
  "a_id scenario_map_area = ''a1''"
  "a_lat scenario_map_area = Some 13"
  "a_lng scenario_map_area = Some 78"
  "a_name scenario_map_area = Some ''Tech Park''"
  "freeSlots scenario_map_area = Some 6"
  "occupancyPercentage scenario_map_area = 40"
  by (simp_all add: scenario_map_area_def scenario_percentage)
     (simp_all add: occupancy_simps scenario_area_def count_status_Some scenario_counts)

theorem marker_of_area_witness:
  "areaMarkers (Some scenario_map_area)
     = [\<lparr>m_area_id = ''a1'', m_lat = 13, m_lng = 78, m_color = ''#10B981'', m_label = 6,
         m_name = ''Tech Park''\<rparr>]
   \<and> areaMarkers (Some (scenario_map_area\<lparr>occupancyPercentage := 60\<rparr>))
     = [\<lparr>m_area_id = ''a1'', m_lat = 13, m_lng = 78, m_color = ''#F59E0B'', m_label = 6,
         m_name = ''Tech Park''\<rparr>]
   \<and> areaMarkers (Some (scenario_map_area\<lparr>occupancyPercentage := 90\<rparr>))
     = [\<lparr>m_area_id = ''a1'', m_lat = 13, m_lng = 78, m_color = ''#EF4444'', m_label = 6,
         m_name = ''Tech Park''\<rparr>]
   \<and> areaMarkers (Some (scenario_map_area\<lparr>a_lat := Some 0\<rparr>)) = []
   \<and> areaMarkers (Some (scenario_map_area\<lparr>a_name := Some []\<rparr>)) = []
   \<and> areaMarkers (Some (scenario_map_area\<lparr>freeSlots := None\<rparr>)) = []
   \<and> length (markers [None, Some scenario_map_area, Some (scenario_map_area\<lparr>a_lng := Some 0\<rparr>)])
     = 1"
proof -
  note green = marker_of_area[of scenario_map_area 13 78 "''Tech Park''" 6 "[]"]
  note amber = marker_of_area[of "scenario_map_area\<lparr>occupancyPercentage := 60\<rparr>" 13 78
      "''Tech Park''" 6 "[]"]
  note red = marker_of_area[of "scenario_map_area\<lparr>occupancyPercentage := 90\<rparr>" 13 78
      "''Tech Park''" 6 "[]"]
  note no_lat = marker_of_area[of "scenario_map_area\<lparr>a_lat := Some 0\<rparr>" 13 78 "''Tech Park''" 6 "[]"]
  note no_name = marker_of_area[of "scenario_map_area\<lparr>a_name := Some []\<rparr>" 13 78 "''Tech Park''" 6 "[]"]
  note no_free = marker_of_area[of "scenario_map_area\<lparr>freeSlots := None\<rparr>" 13 78 "''Tech Park''" 6 "[]"]
  note no_lng = marker_of_area[of "scenario_map_area\<lparr>a_lng := Some 0\<rparr>" 13 78 "''Tech Park''" 6
      "[None, Some scenario_map_area, Some (scenario_map_area\<lparr>a_lng := Some 0\<rparr>)]"]
  have g: "areaMarkers (Some scenario_map_area)
     = [\<lparr>m_area_id = ''a1'', m_lat = 13, m_lng = 78, m_color = ''#10B981'', m_label = 6,
         m_name = ''Tech Park''\<rparr>]"
    using green by (simp add: scenario_map_area_fields)
  have a: "areaMarkers (Some (scenario_map_area\<lparr>occupancyPercentage := 60\<rparr>))
     = [\<lparr>m_area_id = ''a1'', m_lat = 13, m_lng = 78, m_color = ''#F59E0B'', m_label = 6,
         m_name = ''Tech Park''\<rparr>]"
    using amber by (simp add: scenario_map_area_fields)
  have r: "areaMarkers (Some (scenario_map_area\<lparr>occupancyPercentage := 90\<rparr>))
     = [\<lparr>m_area_id = ''a1'', m_lat = 13, m_lng = 78, m_color = ''#EF4444'', m_label = 6,
         m_name = ''Tech Park''\<rparr>]"
    using red by (simp add: scenario_map_area_fields)
  have z: "areaMarkers (Some (scenario_map_area\<lparr>a_lat := Some 0\<rparr>)) = []"
    using no_lat by simp
  have n: "areaMarkers (Some (scenario_map_area\<lparr>a_name := Some []\<rparr>)) = []"
    using no_name by simp
  have f: "areaMarkers (Some (scenario_map_area\<lparr>freeSlots := None\<rparr>)) = []"
    using no_free by simp
  have w: "areaMarkers (Some (scenario_map_area\<lparr>a_lng := Some 0\<rparr>)) = []"
    using no_lng by simp
  have k: "areaMarkers None = []"
    using green by simp
  have c: "length (markers [None, Some scenario_map_area, Some (scenario_map_area\<lparr>a_lng := Some 0\<rparr>)])
     = 1"
    using no_lng by (simp add: g w k)
  from g a r z n f c show ?thesis
    by blast
qed

end
